theory Spec2Isabelle
  imports Complex_Main
begin

section \<open>Data model\<close>

text \<open>
  The types follow the TypeScript declarations at the top of
  \<^verbatim>\<open>src/app/room/[roomId]/page.tsx\<close>. An optional property \<^verbatim>\<open>f?: T\<close> is a
  \<open>T option\<close>; \<open>None\<close> stands for a property that is absent or \<^verbatim>\<open>null\<close> (the code
  tests such properties with \<^verbatim>\<open>typeof x === "boolean"\<close>, \<^verbatim>\<open>??\<close> and truthiness, none of
  which tells the two apart). Server timestamps are natural numbers. Where two source types
  use one field name, the record fields carry a prefix.
\<close>

record RoomData =
  room_name :: string
  adminUid :: string
  joinCode :: string
  defaultCanChat :: "bool option"
  defaultCanCall :: "bool option"
  lockChat :: "bool option"
  lockCalls :: "bool option"

datatype role = RoleAdmin | RoleMember

text \<open>
  \<^verbatim>\<open>Member\<close> is the document \<^verbatim>\<open>rooms/{roomId}/members/{uid}\<close>. The same record is the
  payload of a merging \<^verbatim>\<open>setDoc\<close>: there \<open>None\<close> in an optional field says that the
  payload has no such key.
\<close>

record Member =
  m_uid :: string
  m_name :: string
  m_role :: role
  m_canChat :: "bool option"
  m_canCall :: "bool option"
  m_joinedAt :: "nat option"

text \<open>The signed-in user as the identity provider reports it.\<close>

record User =
  uid :: string
  displayName :: "string option"

text \<open>The state \<^verbatim>\<open>myOverrides\<close>: \<^verbatim>\<open>{ canChat?: boolean; canCall?: boolean }\<close>.\<close>

record Overrides =
  canChat :: "bool option"
  canCall :: "bool option"

datatype SdpType = SdpOffer | SdpAnswer

text \<open>A session descriptor \<^verbatim>\<open>{ type, sdp }\<close>.\<close>

record SessionDesc =
  sd_type :: SdpType
  sdp :: string

datatype CallStatus = StatusOpen | StatusConnected | StatusEnded

record CallDoc =
  createdAt :: "nat option"
  createdByUid :: "string option"
  offer :: "SessionDesc option"
  answer :: "SessionDesc option"
  status :: "CallStatus option"

record VoiceStateDoc =
  callId :: "string option"
  updatedAt :: "nat option"
  updatedByUid :: "string option"

record VoiceMember =
  vm_uid :: string
  vm_name :: string
  vm_joinedAt :: "nat option"

type_synonym IceCandidate = string

text \<open>
  The shared document store, restricted to the documents below \<^verbatim>\<open>rooms/{roomId}\<close> of the
  room that the page shows: the room document, \<^verbatim>\<open>members/{uid}\<close>, \<^verbatim>\<open>voice/current\<close>,
  \<^verbatim>\<open>voiceMembers/{uid}\<close>, \<^verbatim>\<open>calls/{callId}\<close> and the two candidate collections of each
  call. \<open>serverTime\<close> is the value that \<^verbatim>\<open>serverTimestamp()\<close> resolves to. A request to
  the store that is well formed succeeds; \<^verbatim>\<open>updateDoc\<close> on a missing document is rejected.
\<close>

record Store =
  serverTime :: nat
  roomDoc :: "RoomData option"
  members :: "string \<rightharpoonup> Member"
  voiceCurrent :: "VoiceStateDoc option"
  voiceMembers :: "string \<rightharpoonup> VoiceMember"
  calls :: "string \<rightharpoonup> CallDoc"
  offerCandidates :: "string \<Rightarrow> IceCandidate list"
  answerCandidates :: "string \<Rightarrow> IceCandidate list"

text \<open>
  The peer-transport capability. A peer connection is an object of the browser; the page
  holds it in \<^verbatim>\<open>pcRef\<close> and in the closures of its subscriptions, so the objects live in
  a heap (\<open>peers\<close>, a handle is an index) and both places hold the handle. The record keeps
  what the code reads or what a claim counts: the signalling state, the number of calls of
  \<^verbatim>\<open>close()\<close>, the tracks added, the descriptions, every argument that
  \<^verbatim>\<open>setRemoteDescription\<close> was called with, and the collection that the
  \<^verbatim>\<open>onicecandidate\<close> handler writes to.
\<close>

datatype SignalingState = Stable | HaveLocalOffer | HaveRemoteOffer | Closed

datatype Side = OfferSide | AnswerSide

record Peer =
  signalingState :: SignalingState
  closeCalls :: nat
  senders :: "nat list"
  localDescription :: "SessionDesc option"
  pendingRemoteDescription :: "SessionDesc option"
  currentRemoteDescription :: "SessionDesc option"
  setRemoteCalls :: "SessionDesc list"
  onicecandidate :: "(Side \<times> string) option"

text \<open>The live subscriptions (\<^verbatim>\<open>onSnapshot\<close>) that a call sets up, with the peer they close over.\<close>

datatype Subscription =
    CallerDocSub nat string
  | AnswerCandidatesSub nat string
  | CalleeDocSub nat string
  | OfferCandidatesSub nat string

text \<open>
  The state \<^verbatim>\<open>status\<close> of the page: \<^verbatim>\<open>"Carico room..."\<close>, \<^verbatim>\<open>"Room non trovata."\<close>,
  \<^verbatim>\<open>"OK"\<close>, \<^verbatim>\<open>"Errore caricando la room."\<close>.
\<close>

datatype RoomStatus = RoomLoading | RoomNotFound | RoomOK | RoomLoadError

text \<open>
  The component state that both versions of the room page have: the route parameter
  \<^verbatim>\<open>roomId\<close>, \<^verbatim>\<open>user\<close>, \<^verbatim>\<open>room\<close>, \<^verbatim>\<open>status\<close>, \<^verbatim>\<open>myRole\<close> (\<open>None\<close> is the string
  \<^verbatim>\<open>"none"\<close>), \<^verbatim>\<open>myOverrides\<close> and the three refs. \<^verbatim>\<open>localStreamRef\<close> holds the handles
  of the stream's tracks; \<open>tracks\<close> is the heap of media tracks and gives for each track
  the number of calls of \<^verbatim>\<open>stop()\<close>. \<^verbatim>\<open>remoteAudioRef\<close> is \<open>None\<close> while the audio
  element is not mounted, else its \<^verbatim>\<open>srcObject\<close>: the remote stream of a peer or
  \<^verbatim>\<open>null\<close>.
\<close>

record Page =
  roomId :: string
  user :: "User option"
  room :: "RoomData option"
  roomStatus :: RoomStatus
  myRole :: "role option"
  myOverrides :: Overrides
  pcRef :: "nat option"
  localStreamRef :: "nat list option"
  remoteAudioRef :: "nat option option"
  peers :: "Peer list"
  tracks :: "nat list"
  subscriptions :: "Subscription list"

text \<open>
  The messages of \<^verbatim>\<open>voiceStatus\<close> in \<^verbatim>\<open>src/app/room/[roomId]/page.tsx\<close>, in the order of
  the constructors: "Vocale non attivo.", "Vocale attivo.", "Entro in vocale... (creo
  sessione)", "Entro in vocale... (mi unisco)", "Connesso (audio)", "Vocale chiuso.",
  "In vocale", "Sessione vocale non trovata.", "Sessione non pronta (manca offer). Riprova
  tra 2 secondi.", "Non hai permessi per il vocale in questa room.", "Creo stanza
  vocale...", "Sei uscito dal vocale.", "Vocale chiuso per tutti.".
\<close>

datatype VoiceStatus =
    VoiceInactive | VoiceActive | VoiceEnteringCaller | VoiceEnteringCallee
  | VoiceConnected | VoiceClosed | VoiceInVoice | VoiceSessionNotFound
  | VoiceSessionNotReady | VoiceNoPermission | VoiceCreating | VoiceExited
  | VoiceClosedForAll

text \<open>The room page with the shared voice channel (\<^verbatim>\<open>src/app/room/[roomId]/page.tsx\<close>).\<close>

record VoicePage = Page +
  voiceCallId :: "string option"
  voiceStatus :: VoiceStatus
  inVoice :: bool

text \<open>
  The messages of \<^verbatim>\<open>callStatus\<close> in the older room page (\<^verbatim>\<open>src/unnamed/part_001\<close>):
  "Nessuna chiamata attiva.", "Chiamata chiusa.", "Non hai i permessi per fare chiamate.",
  "Creo chiamata...", "Chiamata creata. Condividi il link o attendi che qualcuno si
  unisca.", "Connesso (audio attivo)", "Mi unisco alla chiamata...", "Chiamata non trovata.",
  "Chiamata non pronta (manca offer).".
\<close>

datatype CallMessage =
    CallNone | CallClosed | CallNoPermission | CallCreating | CallCreated
  | CallConnected | CallJoining | CallNotFound | CallNotReady

text \<open>The older room page with standalone calls; \<open>pageCallId\<close> is its state \<^verbatim>\<open>callId\<close>.\<close>

record CallPage = Page +
  pageCallId :: string
  callStatus :: CallMessage

text \<open>
  An asynchronous function either returns or its promise is rejected; the state it has
  written by then stays written.
\<close>

datatype error = NotLogged | MediaError | NotFound | InvalidState

datatype outcome = Returned | Rejected error

text \<open>
  What the environment answers during one call of an action: \<open>mic\<close> is the number of audio
  tracks that \<^verbatim>\<open>getUserMedia\<close> delivers, \<open>None\<close> when it is rejected (permission denied or
  no device); \<open>offerSdp\<close> and \<open>answerSdp\<close> are what \<^verbatim>\<open>createOffer\<close> and \<^verbatim>\<open>createAnswer\<close>
  produce; \<open>newCallId\<close> is the identifier that \<^verbatim>\<open>addDoc\<close> assigns.
\<close>

record Media =
  mic :: "nat option"
  offerSdp :: string
  answerSdp :: string
  newCallId :: string

section \<open>Permission resolver\<close>

text \<open>JavaScript truthiness of an optional boolean and of an optional string, and \<^verbatim>\<open>x ?? true\<close>.\<close>

definition truthy :: "bool option \<Rightarrow> bool" where
  "truthy x = (case x of None \<Rightarrow> False | Some b \<Rightarrow> b)"

definition truthyStr :: "string option \<Rightarrow> bool" where
  "truthyStr x = (case x of None \<Rightarrow> False | Some s \<Rightarrow> s \<noteq> [])"

definition orTrue :: "bool option \<Rightarrow> bool" where
  "orTrue x = (case x of None \<Rightarrow> True | Some b \<Rightarrow> b)"

text \<open>\<^verbatim>\<open>const isAdmin = useMemo(() => myRole === "admin", [myRole])\<close>\<close>

definition isAdmin :: "'a Page_scheme \<Rightarrow> bool" where
  "isAdmin p = (myRole p = Some RoleAdmin)"

text \<open>
  \<^verbatim>\<open>effectiveCanChat\<close> and \<^verbatim>\<open>effectiveCanCall\<close>, branch by branch as in the source (the two
  versions of the page agree): no user or no room, admin, lock, override, room default.
\<close>

definition effectiveCanChat :: "'a Page_scheme \<Rightarrow> bool" where
  "effectiveCanChat p =
     (case user p of None \<Rightarrow> False | Some u \<Rightarrow>
      (case room p of None \<Rightarrow> False | Some r \<Rightarrow>
        if isAdmin p then True
        else if truthy (lockChat r) then False
        else (case canChat (myOverrides p) of
                Some b \<Rightarrow> b
              | None \<Rightarrow> orTrue (defaultCanChat r))))"

definition effectiveCanCall :: "'a Page_scheme \<Rightarrow> bool" where
  "effectiveCanCall p =
     (case user p of None \<Rightarrow> False | Some u \<Rightarrow>
      (case room p of None \<Rightarrow> False | Some r \<Rightarrow>
        if isAdmin p then True
        else if truthy (lockCalls r) then False
        else (case canCall (myOverrides p) of
                Some b \<Rightarrow> b
              | None \<Rightarrow> orTrue (defaultCanCall r))))"

text \<open>
  The members subscription derives \<^verbatim>\<open>myRole\<close> and \<^verbatim>\<open>myOverrides\<close> from the member list:
  \<^verbatim>\<open>list.find((m) => m.uid === u.uid)\<close>, then \<^verbatim>\<open>me?.role ?? "none"\<close> and the two override
  fields; with no signed-in user the role is \<^verbatim>\<open>"none"\<close> and the overrides are empty.
\<close>

definition membersSnapshot :: "Member list \<Rightarrow> User option \<Rightarrow> 'a Page_scheme \<Rightarrow> 'a Page_scheme" where
  "membersSnapshot list cur p =
     (case cur of
        None \<Rightarrow> p\<lparr>myRole := None, myOverrides := \<lparr>canChat = None, canCall = None\<rparr>\<rparr>
      | Some u \<Rightarrow>
         (case find (\<lambda>m. m_uid m = uid u) list of
            None \<Rightarrow> p\<lparr>myRole := None, myOverrides := \<lparr>canChat = None, canCall = None\<rparr>\<rparr>
          | Some me \<Rightarrow> p\<lparr>myRole := Some (m_role me),
                          myOverrides := \<lparr>canChat = m_canChat me, canCall = m_canCall me\<rparr>\<rparr>))"

section \<open>Room entry: settings backfill and member upsert\<close>

text \<open>\<^verbatim>\<open>u.displayName ?? "utente"\<close>\<close>

definition orUtente :: "string option \<Rightarrow> string" where
  "orUtente n = (case n of None \<Rightarrow> ''utente'' | Some s \<Rightarrow> s)"

text \<open>
  \<^verbatim>\<open>{ ...data0, ...patch }\<close>, where \<^verbatim>\<open>patch\<close> gives each of the four settings that is not
  a boolean in \<^verbatim>\<open>data0\<close> its default: true, true, false, false.
\<close>

definition backfill :: "RoomData \<Rightarrow> RoomData" where
  "backfill data0 =
     data0\<lparr>defaultCanChat := Some (orTrue (defaultCanChat data0)),
            defaultCanCall := Some (orTrue (defaultCanCall data0)),
            lockChat := Some (truthy (lockChat data0)),
            lockCalls := Some (truthy (lockCalls data0))\<rparr>"

text \<open>
  \<^verbatim>\<open>setDoc(ref, payload, { merge: true })\<close> on a member document: every key of the payload
  replaces the stored value, every other stored field stays. The keys \<^verbatim>\<open>uid\<close>, \<^verbatim>\<open>name\<close>
  and \<^verbatim>\<open>role\<close> are in every payload.
\<close>

definition mergeMember :: "Member option \<Rightarrow> Member \<Rightarrow> Member" where
  "mergeMember old payload =
     (case old of
        None \<Rightarrow> payload
      | Some m \<Rightarrow>
          payload\<lparr>m_canChat := (case m_canChat payload of Some b \<Rightarrow> Some b | None \<Rightarrow> m_canChat m),
                  m_canCall := (case m_canCall payload of Some b \<Rightarrow> Some b | None \<Rightarrow> m_canCall m),
                  m_joinedAt := (case m_joinedAt payload of Some t \<Rightarrow> Some t | None \<Rightarrow> m_joinedAt m)\<rparr>)"

text \<open>
  The payload of the member upsert in \<^verbatim>\<open>src/app/room/[roomId]/page.tsx\<close> (lines 174-185):
  \<^verbatim>\<open>canChat: isAdmin ? true : (data.defaultCanChat ?? true)\<close> and the same for
  \<^verbatim>\<open>canCall\<close>.
\<close>

definition memberPayload :: "RoomData \<Rightarrow> User \<Rightarrow> nat \<Rightarrow> Member" where
  "memberPayload data u now =
     (let isAdmin = (adminUid data = uid u)
      in \<lparr>m_uid = uid u,
          m_name = orUtente (displayName u),
          m_role = (if isAdmin then RoleAdmin else RoleMember),
          m_canChat = Some (if isAdmin then True else orTrue (defaultCanChat data)),
          m_canCall = Some (if isAdmin then True else orTrue (defaultCanCall data)),
          m_joinedAt = Some now\<rparr>)"

text \<open>
  The payload in the older page (\<^verbatim>\<open>src/unnamed/part_001\<close>, lines 168-177), under the
  comment "membership base: crea doc member se manca (override vuoti)": it has no key
  \<^verbatim>\<open>canChat\<close> and no key \<^verbatim>\<open>canCall\<close>.
\<close>

definition memberPayload_v1 :: "RoomData \<Rightarrow> User \<Rightarrow> nat \<Rightarrow> Member" where
  "memberPayload_v1 data u now =
     (let isAdmin = (adminUid data = uid u)
      in \<lparr>m_uid = uid u,
          m_name = orUtente (displayName u),
          m_role = (if isAdmin then RoleAdmin else RoleMember),
          m_canChat = None,
          m_canCall = None,
          m_joinedAt = Some now\<rparr>)"

text \<open>
  The effect that loads the room. Both versions of the page run the same steps and differ in
  the payload of the upsert only, which is the first argument here: no room id, nothing
  happens; no room document, the status says so; else the missing settings are written
  back (\<^verbatim>\<open>updateDoc\<close> when the patch has a key), the page takes the patched room, and with
  a signed-in user \<^verbatim>\<open>auth.currentUser\<close> the member document is upserted. The list of saved
  rooms in local storage is left out.
\<close>

definition loadRoomWith ::
  "(RoomData \<Rightarrow> User \<Rightarrow> nat \<Rightarrow> Member) \<Rightarrow> User option \<Rightarrow> 'a Page_scheme \<times> Store
     \<Rightarrow> 'a Page_scheme \<times> Store" where
  "loadRoomWith payload currentUser w =
     (case w of (p, s) \<Rightarrow>
      if roomId p = [] then (p, s)
      else (case roomDoc s of
              None \<Rightarrow> (p\<lparr>roomStatus := RoomNotFound\<rparr>, s)
            | Some data0 \<Rightarrow>
                let data = backfill data0;
                    s1 = (if data \<noteq> data0 then s\<lparr>roomDoc := Some data\<rparr> else s);
                    p1 = p\<lparr>room := Some data, roomStatus := RoomOK\<rparr>
                in (case currentUser of
                      None \<Rightarrow> (p1, s1)
                    | Some u \<Rightarrow>
                        (p1, s1\<lparr>members := (members s1)
                               (uid u \<mapsto> mergeMember (members s1 (uid u))
                                           (payload data u (serverTime s1)))\<rparr>))))"

definition loadRoom :: "User option \<Rightarrow> VoicePage \<times> Store \<Rightarrow> VoicePage \<times> Store" where
  "loadRoom = loadRoomWith memberPayload"

definition loadRoom_v1 :: "User option \<Rightarrow> CallPage \<times> Store \<Rightarrow> CallPage \<times> Store" where
  "loadRoom_v1 = loadRoomWith memberPayload_v1"

section \<open>Invite codes\<close>

text \<open>
  Strings are lists of ASCII characters. \<^verbatim>\<open>toUpperCase\<close> maps the letters a-z to A-Z and
  \<^verbatim>\<open>trim\<close> removes the ASCII white space and line terminators (tab, line feed, vertical
  tab, form feed, carriage return, space) at both ends.
\<close>

definition toUpperChar :: "char \<Rightarrow> char" where
  "toUpperChar c =
     (let n = (of_char c :: nat) in if 97 \<le> n \<and> n \<le> 122 then char_of (n - 32) else c)"

definition toLowerChar :: "char \<Rightarrow> char" where
  "toLowerChar c =
     (let n = (of_char c :: nat) in if 65 \<le> n \<and> n \<le> 90 then char_of (n + 32) else c)"

definition toUpperCase :: "string \<Rightarrow> string" where
  "toUpperCase s = map toUpperChar s"

definition isWhiteSpace :: "char \<Rightarrow> bool" where
  "isWhiteSpace c = (c \<in> set [CHR 0x09, CHR 0x0A, CHR 0x0B, CHR 0x0C, CHR 0x0D, CHR 0x20])"

definition trim :: "string \<Rightarrow> string" where
  "trim s = rev (dropWhile isWhiteSpace (rev (dropWhile isWhiteSpace s)))"

text \<open>
  \<^verbatim>\<open>randomCode\<close> (\<^verbatim>\<open>src/unnamed/part_000\<close>, lines 16-21). The argument \<open>rnd\<close> gives the
  value of the \<open>i\<close>-th call of \<^verbatim>\<open>Math.random()\<close>, a number in \<open>[0, 1)\<close>; the loop calls it
  once in each round. \<^verbatim>\<open>chars[k]\<close> out of range is \<^verbatim>\<open>undefined\<close>, which \<^verbatim>\<open>+=\<close> appends
  as the text "undefined". The product with the length 32 is exact in floating point.
\<close>

definition chars :: string where
  "chars = ''ABCDEFGHJKLMNPQRSTUVWXYZ23456789''"

definition pick :: "real \<Rightarrow> string" where
  "pick r = (let k = \<lfloor>r * real (length chars)\<rfloor>
             in if 0 \<le> k \<and> k < int (length chars) then [chars ! nat k] else ''undefined'')"

function randomCode_loop :: "nat \<Rightarrow> nat \<Rightarrow> (nat \<Rightarrow> real) \<Rightarrow> string \<Rightarrow> string" where
  "randomCode_loop i len rnd out =
     (if i < len then randomCode_loop (i + 1) len rnd (out @ pick (rnd i)) else out)"
  by pat_completeness auto
termination
  by (relation "measure (\<lambda>(i, len, rnd, out). len - i)") auto

declare randomCode_loop.simps [simp del]

definition randomCode :: "nat \<Rightarrow> (nat \<Rightarrow> real) \<Rightarrow> string" where
  "randomCode len rnd = randomCode_loop 0 len rnd []"

text \<open>
  \<^verbatim>\<open>createRoom\<close> (\<^verbatim>\<open>src/unnamed/part_000\<close>, lines 78-96): without a signed-in user nothing
  happens; else the new room document has the trimmed name (or "Room"), the code
  \<^verbatim>\<open>randomCode(6)\<close> as \<^verbatim>\<open>joinCode\<close>, the user as admin and no settings.
\<close>

definition createRoom :: "User option \<Rightarrow> string \<Rightarrow> (nat \<Rightarrow> real) \<Rightarrow> RoomData option" where
  "createRoom currentUser roomName rnd =
     (case currentUser of
        None \<Rightarrow> None
      | Some u \<Rightarrow>
          let code = randomCode 6 rnd;
              name = (if trim roomName = [] then ''Room'' else trim roomName)
          in Some \<lparr>room_name = name, adminUid = uid u, joinCode = code,
                   defaultCanChat = None, defaultCanCall = None,
                   lockChat = None, lockCalls = None\<rparr>)"

text \<open>
  \<^verbatim>\<open>enterRoom\<close> (\<^verbatim>\<open>src/unnamed/part_000\<close>, lines 98-103): the code typed in is trimmed and
  upper-cased; an empty code gives a message, any other one goes to \<^verbatim>\<open>/join?code=...\<close>.
\<close>

datatype HomeAction = SetMsg string | GoJoin string

definition enterRoom :: "string \<Rightarrow> HomeAction" where
  "enterRoom joinCodeInput =
     (let code = toUpperCase (trim joinCodeInput)
      in if code = [] then SetMsg ''Inserisci un codice.'' else GoJoin code)"

text \<open>
  The join page (\<^verbatim>\<open>src/unnamed/part_002\<close>, lines 39-57):
  \<^verbatim>\<open>(url.searchParams.get("code") || "").toUpperCase().trim()\<close>, then the query
  \<^verbatim>\<open>where("joinCode", "==", code)\<close> over the rooms, of which the first result is taken.
\<close>

definition joinPageCode :: "string option \<Rightarrow> string" where
  "joinPageCode param = trim (toUpperCase (case param of None \<Rightarrow> [] | Some s \<Rightarrow> s))"

datatype JoinResult = JoinStatus string | GoRoom string string

definition joinLookup :: "(string \<times> RoomData) list \<Rightarrow> string option \<Rightarrow> JoinResult" where
  "joinLookup rooms param =
     (let code = joinPageCode param
      in if code = [] then JoinStatus ''Codice mancante.''
         else (case filter (\<lambda>d. joinCode (snd d) = code) rooms of
                 [] \<Rightarrow> JoinStatus ''Nessuna room trovata con questo codice.''
               | d # ds \<Rightarrow> GoRoom (fst d) code))"

text \<open>
  A case variant of a code: the same characters, each as it is or as its lower-case letter.
\<close>

definition caseVariant :: "string \<Rightarrow> string \<Rightarrow> bool" where
  "caseVariant v code = list_all2 (\<lambda>a b. a = b \<or> a = toLowerChar b) v code"

section \<open>The peer-transport and media capability\<close>

text \<open>
  \<^verbatim>\<open>pc.close()\<close> and \<^verbatim>\<open>track.stop()\<close>: the call is counted; a closed peer has the
  signalling state \<^verbatim>\<open>closed\<close>.
\<close>

definition closePeer :: "nat \<Rightarrow> Peer list \<Rightarrow> Peer list" where
  "closePeer h ps =
     (if h < length ps
      then ps[h := (ps ! h)\<lparr>signalingState := Closed, closeCalls := Suc (closeCalls (ps ! h))\<rparr>]
      else ps)"

definition stopTrack :: "nat list \<Rightarrow> nat \<Rightarrow> nat list" where
  "stopTrack ts t = (if t < length ts then ts[t := Suc (ts ! t)] else ts)"

definition newPeer :: Peer where
  "newPeer = \<lparr>signalingState = Stable, closeCalls = 0, senders = [],
              localDescription = None, pendingRemoteDescription = None,
              currentRemoteDescription = None, setRemoteCalls = [],
              onicecandidate = None\<rparr>"

definition getUserMedia :: "Media \<Rightarrow> 'a Page_scheme \<Rightarrow> (nat list \<times> 'a Page_scheme) option" where
  "getUserMedia env p =
     (case mic env of
        None \<Rightarrow> None
      | Some n \<Rightarrow> Some ([length (tracks p) ..< length (tracks p) + n],
                        p\<lparr>tracks := tracks p @ replicate n 0\<rparr>))"

definition newRTCPeerConnection :: "'a Page_scheme \<Rightarrow> nat \<times> 'a Page_scheme" where
  "newRTCPeerConnection p = (length (peers p), p\<lparr>peers := peers p @ [newPeer]\<rparr>)"

definition updPeer :: "nat \<Rightarrow> (Peer \<Rightarrow> Peer) \<Rightarrow> 'a Page_scheme \<Rightarrow> 'a Page_scheme" where
  "updPeer pc f p = (if pc < length (peers p) then p\<lparr>peers := (peers p)[pc := f (peers p ! pc)]\<rparr> else p)"

definition getPeer :: "nat \<Rightarrow> 'a Page_scheme \<Rightarrow> Peer" where
  "getPeer pc p = (if pc < length (peers p) then peers p ! pc else newPeer\<lparr>signalingState := Closed\<rparr>)"

text \<open>
  The offer/answer state machine of a peer connection, as far as one exchange needs it:
  a local offer is set in the state \<^verbatim>\<open>stable\<close>, a remote answer in \<^verbatim>\<open>have-local-offer\<close>
  (it becomes the current remote description), a remote offer in \<^verbatim>\<open>stable\<close> (it is
  pending), a local answer in \<^verbatim>\<open>have-remote-offer\<close> (the pending offer becomes the current
  remote description). Every other call is rejected, as is every call on a closed peer.

  \<^verbatim>\<open>setRemoteDescription\<close> returns a promise, so it has two moments. At the call the peer
  records the argument in \<open>setRemoteCalls\<close>. When the promise settles, the peer applies
  the description to the state it then has, or rejects it. A function that awaits the
  call and is not interleaved with anything else sees both at once:
  \<open>setRemoteDescription\<close>.
\<close>

definition setLocalDescription :: "nat \<Rightarrow> SessionDesc \<Rightarrow> 'a Page_scheme \<Rightarrow> 'a Page_scheme option" where
  "setLocalDescription pc d p =
     (case (signalingState (getPeer pc p), sd_type d) of
        (Stable, SdpOffer) \<Rightarrow>
          Some (updPeer pc (\<lambda>x. x\<lparr>signalingState := HaveLocalOffer, localDescription := Some d\<rparr>) p)
      | (HaveRemoteOffer, SdpAnswer) \<Rightarrow>
          Some (updPeer pc (\<lambda>x. x\<lparr>signalingState := Stable, localDescription := Some d,
                                  currentRemoteDescription := pendingRemoteDescription x,
                                  pendingRemoteDescription := None\<rparr>) p)
      | _ \<Rightarrow> None)"

definition callSetRemoteDescription :: "nat \<Rightarrow> SessionDesc \<Rightarrow> 'a Page_scheme \<Rightarrow> 'a Page_scheme" where
  "callSetRemoteDescription pc d p =
     updPeer pc (\<lambda>x. x\<lparr>setRemoteCalls := setRemoteCalls x @ [d]\<rparr>) p"

definition settleSetRemoteDescription ::
  "nat \<Rightarrow> SessionDesc \<Rightarrow> 'a Page_scheme \<Rightarrow> outcome \<times> 'a Page_scheme" where
  "settleSetRemoteDescription pc d p =
     (case (signalingState (getPeer pc p), sd_type d) of
        (HaveLocalOffer, SdpAnswer) \<Rightarrow>
          (Returned, updPeer pc (\<lambda>x. x\<lparr>signalingState := Stable,
                                          currentRemoteDescription := Some d\<rparr>) p)
      | (Stable, SdpOffer) \<Rightarrow>
          (Returned, updPeer pc (\<lambda>x. x\<lparr>signalingState := HaveRemoteOffer,
                                          pendingRemoteDescription := Some d\<rparr>) p)
      | _ \<Rightarrow> (Rejected InvalidState, p))"

definition setRemoteDescription :: "nat \<Rightarrow> SessionDesc \<Rightarrow> 'a Page_scheme \<Rightarrow> outcome \<times> 'a Page_scheme" where
  "setRemoteDescription pc d p =
     settleSetRemoteDescription pc d (callSetRemoteDescription pc d p)"

text \<open>
  The handler \<^verbatim>\<open>pc.ontrack\<close>: the remote stream of the peer becomes the source of the
  audio element, if the element is there.
\<close>

definition ontrack :: "nat \<Rightarrow> 'a Page_scheme \<Rightarrow> 'a Page_scheme" where
  "ontrack pc p =
     (case remoteAudioRef p of None \<Rightarrow> p | Some src \<Rightarrow> p\<lparr>remoteAudioRef := Some (Some pc)\<rparr>)"

text \<open>
  The handler \<^verbatim>\<open>pc.onicecandidate\<close> appends a local candidate to the collection of the
  side that installed it. What the peer does with the remote candidates that the two
  subscriptions to candidate collections hand to it is left out.
\<close>

definition localIceCandidate :: "nat \<Rightarrow> IceCandidate \<Rightarrow> 'a Page_scheme \<times> Store \<Rightarrow> 'a Page_scheme \<times> Store" where
  "localIceCandidate pc c w =
     (case w of (p, s) \<Rightarrow>
      (case onicecandidate (getPeer pc p) of
         None \<Rightarrow> (p, s)
       | Some (OfferSide, cid) \<Rightarrow> (p, s\<lparr>offerCandidates := (offerCandidates s)(cid := offerCandidates s cid @ [c])\<rparr>)
       | Some (AnswerSide, cid) \<Rightarrow> (p, s\<lparr>answerCandidates := (answerCandidates s)(cid := answerCandidates s cid @ [c])\<rparr>)))"

section \<open>The shared voice channel (\<^verbatim>\<open>src/app/room/[roomId]/page.tsx\<close>)\<close>

text \<open>
  \<^verbatim>\<open>cleanupCall\<close> (lines 315-331). Each \<^verbatim>\<open>try\<close> block swallows whatever its body throws,
  so the function has no failing outcome.
\<close>

definition cleanupCall :: "VoicePage \<Rightarrow> VoicePage" where
  "cleanupCall p =
     (let p1 = (case pcRef p of None \<Rightarrow> p | Some h \<Rightarrow> p\<lparr>peers := closePeer h (peers p)\<rparr>);
          p2 = p1\<lparr>pcRef := None\<rparr>;
          p3 = (case localStreamRef p2 of None \<Rightarrow> p2
                | Some st \<Rightarrow> p2\<lparr>tracks := foldl stopTrack (tracks p2) st\<rparr>);
          p4 = p3\<lparr>localStreamRef := None\<rparr>;
          p5 = (case remoteAudioRef p4 of None \<Rightarrow> p4 | Some src \<Rightarrow> p4\<lparr>remoteAudioRef := Some None\<rparr>)
      in p5\<lparr>inVoice := False\<rparr>)"

text \<open>\<^verbatim>\<open>ensureVoiceStateDoc\<close> (lines 474-484) and \<^verbatim>\<open>createCallDoc\<close> (lines 333-341).\<close>

definition ensureVoiceStateDoc :: "VoicePage \<times> Store \<Rightarrow> VoicePage \<times> Store" where
  "ensureVoiceStateDoc w =
     (case w of (p, s) \<Rightarrow>
      (case voiceCurrent s of
         None \<Rightarrow>
           (p, s\<lparr>voiceCurrent := Some \<lparr>callId = None, updatedAt = Some (serverTime s),
                                        updatedByUid = map_option uid (user p)\<rparr>\<rparr>)
       | Some d \<Rightarrow> (p, s)))"

definition createCallDoc :: "Media \<Rightarrow> VoicePage \<times> Store \<Rightarrow> (error + string) \<times> VoicePage \<times> Store" where
  "createCallDoc env w =
     (case w of (p, s) \<Rightarrow>
      (case user p of
         None \<Rightarrow> (Inl NotLogged, p, s)
       | Some u \<Rightarrow>
           (Inr (newCallId env), p,
            s\<lparr>calls := (calls s)(newCallId env \<mapsto>
                  \<lparr>createdAt = Some (serverTime s), createdByUid = Some (uid u),
                   offer = None, answer = None, status = Some StatusOpen\<rparr>)\<rparr>)))"

text \<open>
  \<^verbatim>\<open>startAsCaller\<close> (lines 343-401): status, microphone, peer connection with the tracks
  and its two handlers, local offer, the offer written to the call document, the two
  subscriptions, \<^verbatim>\<open>inVoice\<close>. A rejected \<^verbatim>\<open>await\<close> ends the function where it stands.
\<close>

definition startAsCaller :: "Media \<Rightarrow> string \<Rightarrow> VoicePage \<times> Store \<Rightarrow> outcome \<times> VoicePage \<times> Store" where
  "startAsCaller env cid w =
     (case w of (p, s) \<Rightarrow>
      if user p = None then (Returned, p, s)
      else
        let p1 = p\<lparr>voiceStatus := VoiceEnteringCaller\<rparr>
        in (case getUserMedia env p1 of
              None \<Rightarrow> (Rejected MediaError, p1, s)
            | Some (localStream, p2) \<Rightarrow>
                let p3 = p2\<lparr>localStreamRef := Some localStream\<rparr>;
                    (pc, p4) = newRTCPeerConnection p3;
                    p5 = p4\<lparr>pcRef := Some pc\<rparr>;
                    p6 = updPeer pc (\<lambda>x. x\<lparr>senders := senders x @ localStream,
                                            onicecandidate := Some (OfferSide, cid)\<rparr>) p5;
                    offerDescription = \<lparr>sd_type = SdpOffer, sdp = offerSdp env\<rparr>
                in (case setLocalDescription pc offerDescription p6 of
                      None \<Rightarrow> (Rejected InvalidState, p6, s)
                    | Some p7 \<Rightarrow>
                        (case calls s cid of
                           None \<Rightarrow> (Rejected NotFound, p7, s)
                         | Some d \<Rightarrow>
                             let s1 = s\<lparr>calls := (calls s)(cid \<mapsto> d\<lparr>offer := Some offerDescription\<rparr>)\<rparr>;
                                 p8 = p7\<lparr>subscriptions := subscriptions p7 @
                                          [CallerDocSub pc cid, AnswerCandidatesSub pc cid]\<rparr>
                             in (Returned, p8\<lparr>inVoice := True, voiceStatus := VoiceInVoice\<rparr>, s1)))))"

text \<open>
  \<^verbatim>\<open>joinAsCallee\<close> (lines 403-472): status, fetch of the call document with the two early
  returns, then microphone, peer connection, remote offer, local answer, the answer and the
  status \<^verbatim>\<open>connected\<close> written in one update, the two subscriptions, \<^verbatim>\<open>inVoice\<close>.
\<close>

definition joinAsCallee :: "Media \<Rightarrow> string \<Rightarrow> VoicePage \<times> Store \<Rightarrow> outcome \<times> VoicePage \<times> Store" where
  "joinAsCallee env cid w =
     (case w of (p, s) \<Rightarrow>
      if user p = None then (Returned, p, s)
      else
        let p1 = p\<lparr>voiceStatus := VoiceEnteringCallee\<rparr>
        in (case calls s cid of
              None \<Rightarrow> (Returned, p1\<lparr>voiceStatus := VoiceSessionNotFound\<rparr>, s)
            | Some callData \<Rightarrow>
                (case offer callData of
                   None \<Rightarrow> (Returned, p1\<lparr>voiceStatus := VoiceSessionNotReady\<rparr>, s)
                 | Some remoteOffer \<Rightarrow>
                     (case getUserMedia env p1 of
                        None \<Rightarrow> (Rejected MediaError, p1, s)
                      | Some (localStream, p2) \<Rightarrow>
                          let p3 = p2\<lparr>localStreamRef := Some localStream\<rparr>;
                              (pc, p4) = newRTCPeerConnection p3;
                              p5 = p4\<lparr>pcRef := Some pc\<rparr>;
                              p6 = updPeer pc (\<lambda>x. x\<lparr>senders := senders x @ localStream,
                                                      onicecandidate := Some (AnswerSide, cid)\<rparr>) p5
                          in (case setRemoteDescription pc remoteOffer p6 of
                                (Rejected e, p7) \<Rightarrow> (Rejected e, p7, s)
                              | (Returned, p7) \<Rightarrow>
                                  let answerDesc = \<lparr>sd_type = SdpAnswer, sdp = answerSdp env\<rparr>
                                  in (case setLocalDescription pc answerDesc p7 of
                                        None \<Rightarrow> (Rejected InvalidState, p7, s)
                                      | Some p8 \<Rightarrow>
                                          let s1 = s\<lparr>calls := (calls s)(cid \<mapsto>
                                                     callData\<lparr>answer := Some answerDesc,
                                                              status := Some StatusConnected\<rparr>)\<rparr>;
                                              p9 = p8\<lparr>subscriptions := subscriptions p8 @
                                                     [OfferCandidatesSub pc cid, CalleeDocSub pc cid]\<rparr>
                                          in (Returned, p9\<lparr>inVoice := True, voiceStatus := VoiceInVoice\<rparr>, s1)))))))"

text \<open>
  \<^verbatim>\<open>enterVoice\<close> (lines 486-532): guards, \<^verbatim>\<open>ensureVoiceStateDoc\<close>, presence, fetch of
  \<^verbatim>\<open>voice/current\<close>; without a call id a new call document is created and published in
  \<^verbatim>\<open>voice/current\<close> before \<^verbatim>\<open>startAsCaller\<close> runs; with one, \<^verbatim>\<open>joinAsCallee\<close> runs.
\<close>

definition enterVoice :: "Media \<Rightarrow> VoicePage \<times> Store \<Rightarrow> outcome \<times> VoicePage \<times> Store" where
  "enterVoice env w =
     (case w of (p, s) \<Rightarrow>
      (case user p of
         None \<Rightarrow> (Returned, p, s)
       | Some u \<Rightarrow>
          if roomId p = [] then (Returned, p, s)
          else if \<not> effectiveCanCall p then (Returned, p\<lparr>voiceStatus := VoiceNoPermission\<rparr>, s)
          else
            let (p1, s1) = ensureVoiceStateDoc (p, s);
                s2 = s1\<lparr>voiceMembers := (voiceMembers s1)(uid u \<mapsto>
                        \<lparr>vm_uid = uid u, vm_name = orUtente (displayName u),
                         vm_joinedAt = Some (serverTime s1)\<rparr>)\<rparr>;
                dataCallId = (case voiceCurrent s2 of None \<Rightarrow> None | Some d \<Rightarrow> callId d)
            in if \<not> truthyStr dataCallId then
                 (case createCallDoc env (p1\<lparr>voiceStatus := VoiceCreating\<rparr>, s2) of
                    (Inl e, p2, s3) \<Rightarrow> (Rejected e, p2, s3)
                  | (Inr newId, p2, s3) \<Rightarrow>
                      (case voiceCurrent s3 of
                         None \<Rightarrow> (Rejected NotFound, p2, s3)
                       | Some d \<Rightarrow>
                           let s4 = s3\<lparr>voiceCurrent := Some (d\<lparr>callId := Some newId,
                                                               updatedAt := Some (serverTime s3),
                                                               updatedByUid := Some (uid u)\<rparr>)\<rparr>
                           in startAsCaller env newId (p2\<lparr>voiceCallId := Some newId\<rparr>, s4)))
               else
                 (case dataCallId of
                    None \<Rightarrow> (Returned, p1, s2)
                  | Some cid \<Rightarrow> joinAsCallee env cid (p1\<lparr>voiceCallId := Some cid\<rparr>, s2))))"

text \<open>\<^verbatim>\<open>exitVoice\<close> (lines 534-545) and \<^verbatim>\<open>closeVoiceForAll\<close> (lines 547-569).\<close>

definition exitVoice :: "VoicePage \<times> Store \<Rightarrow> VoicePage \<times> Store" where
  "exitVoice w =
     (case w of (p, s) \<Rightarrow>
      (case user p of
         None \<Rightarrow> (p, s)
       | Some u \<Rightarrow>
          if roomId p = [] then (p, s)
          else ((cleanupCall p)\<lparr>voiceStatus := VoiceExited\<rparr>,
                s\<lparr>voiceMembers := (voiceMembers s)(uid u := None)\<rparr>)))"

definition closeVoiceForAll :: "VoicePage \<times> Store \<Rightarrow> VoicePage \<times> Store" where
  "closeVoiceForAll w =
     (case w of (p, s) \<Rightarrow>
      if \<not> isAdmin p \<or> roomId p = [] then (p, s)
      else
        let dataCallId = (case voiceCurrent s of None \<Rightarrow> None | Some d \<Rightarrow> callId d);
            s1 = (if truthyStr dataCallId
                  then (case dataCallId of
                          None \<Rightarrow> s
                        | Some cid \<Rightarrow>
                            (case calls s cid of
                               None \<Rightarrow> s
                             | Some c \<Rightarrow> s\<lparr>calls := (calls s)(cid \<mapsto> c\<lparr>status := Some StatusEnded\<rparr>)\<rparr>))
                  else s);
            old = (case voiceCurrent s1 of
                     None \<Rightarrow> \<lparr>callId = None, updatedAt = None, updatedByUid = None\<rparr>
                   | Some d \<Rightarrow> d);
            s2 = s1\<lparr>voiceCurrent := Some (old\<lparr>callId := None, updatedAt := Some (serverTime s1),
                                                updatedByUid := map_option uid (user p)\<rparr>)\<rparr>
        in (p\<lparr>voiceCallId := None, voiceStatus := VoiceClosedForAll\<rparr>, s2))"

text \<open>
  The handler of the caller's subscription to the call document (lines 374-385). It is an
  \<^verbatim>\<open>async\<close> function and \<^verbatim>\<open>onSnapshot\<close> does not wait for it, so it runs in two
  parts. \<open>callerDocSnapshot\<close> is the part that runs when a snapshot is delivered (\<open>None\<close>
  is a snapshot without data): with an answer and no current remote description it calls
  \<^verbatim>\<open>pc.setRemoteDescription\<close> and is suspended at the \<^verbatim>\<open>await\<close>, waiting with the
  answer and the data of its snapshot; otherwise it goes on to the test of the status at
  once. \<open>callerDocResume\<close> is the part that runs when the call of the handler that has
  waited longest settles: after a rejection the handler ends, else it sets the message and
  goes on to the test of the status. \<open>callerDocEnded\<close> is that test; the cleanup in it
  has no \<^verbatim>\<open>await\<close> inside.
\<close>

type_synonym Suspended = "SessionDesc \<times> CallDoc"

definition callerDocEnded :: "CallDoc \<Rightarrow> VoicePage \<Rightarrow> VoicePage" where
  "callerDocEnded data p =
     (if status data = Some StatusEnded then cleanupCall (p\<lparr>voiceStatus := VoiceClosed\<rparr>) else p)"

definition callerDocSnapshot ::
  "nat \<Rightarrow> CallDoc option \<Rightarrow> VoicePage \<times> Suspended list \<Rightarrow> VoicePage \<times> Suspended list" where
  "callerDocSnapshot pc snap w =
     (case w of (p, waiting) \<Rightarrow>
      (case snap of
         None \<Rightarrow> (p, waiting)
       | Some data \<Rightarrow>
           (case answer data of
              None \<Rightarrow> (callerDocEnded data p, waiting)
            | Some a \<Rightarrow>
                if currentRemoteDescription (getPeer pc p) = None
                then (callSetRemoteDescription pc a p, waiting @ [(a, data)])
                else (callerDocEnded data p, waiting))))"

definition callerDocResume ::
  "nat \<Rightarrow> VoicePage \<times> Suspended list \<Rightarrow> outcome \<times> VoicePage \<times> Suspended list" where
  "callerDocResume pc w =
     (case w of (p, waiting) \<Rightarrow>
      (case waiting of
         [] \<Rightarrow> (Returned, p, [])
       | (a, data) # rest \<Rightarrow>
           (case settleSetRemoteDescription pc a p of
              (Rejected e, p1) \<Rightarrow> (Rejected e, p1, rest)
            | (Returned, p1) \<Rightarrow>
                (Returned, callerDocEnded data (p1\<lparr>voiceStatus := VoiceConnected\<rparr>), rest))))"

text \<open>
  What happens to the subscription of one peer, in order: a snapshot is delivered, or the
  oldest pending call settles. A rejected handler does not end the subscription.
\<close>

datatype CallerEvent = Deliver "CallDoc option" | Settle

fun runCallerDoc ::
  "nat \<Rightarrow> CallerEvent list \<Rightarrow> VoicePage \<times> Suspended list \<Rightarrow> VoicePage \<times> Suspended list" where
  "runCallerDoc pc [] w = w"
| "runCallerDoc pc (Deliver snap # evs) w = runCallerDoc pc evs (callerDocSnapshot pc snap w)"
| "runCallerDoc pc (Settle # evs) w = runCallerDoc pc evs (snd (callerDocResume pc w))"

text \<open>The handler of the callee's subscription to the call document (lines 461-468).\<close>

definition calleeDocSnapshot :: "CallDoc option \<Rightarrow> VoicePage \<Rightarrow> VoicePage" where
  "calleeDocSnapshot snap p =
     (case snap of
        None \<Rightarrow> p
      | Some data \<Rightarrow>
          if status data = Some StatusEnded then cleanupCall (p\<lparr>voiceStatus := VoiceClosed\<rparr>) else p)"

section \<open>Standalone calls of the older room page (\<^verbatim>\<open>src/unnamed/part_001\<close>)\<close>

text \<open>\<^verbatim>\<open>cleanupCall\<close> (lines 281-289).\<close>

definition cleanupCall_v1 :: "CallPage \<Rightarrow> CallPage" where
  "cleanupCall_v1 p =
     (let p1 = (case pcRef p of None \<Rightarrow> p | Some h \<Rightarrow> p\<lparr>peers := closePeer h (peers p)\<rparr>);
          p2 = p1\<lparr>pcRef := None\<rparr>;
          p3 = (case localStreamRef p2 of None \<Rightarrow> p2
                | Some st \<Rightarrow> p2\<lparr>tracks := foldl stopTrack (tracks p2) st\<rparr>);
          p4 = p3\<lparr>localStreamRef := None\<rparr>
      in p4\<lparr>callStatus := CallClosed\<rparr>)"

text \<open>
  \<^verbatim>\<open>createCall\<close> (lines 291-357): guards, microphone, peer connection, then the new call
  document, the local offer, the offer written to the document, the two subscriptions.
\<close>

definition createCall :: "Media \<Rightarrow> CallPage \<times> Store \<Rightarrow> outcome \<times> CallPage \<times> Store" where
  "createCall env w =
     (case w of (p, s) \<Rightarrow>
      (case user p of
         None \<Rightarrow> (Returned, p, s)
       | Some u \<Rightarrow>
          if \<not> effectiveCanCall p then (Returned, p\<lparr>callStatus := CallNoPermission\<rparr>, s)
          else
            let p1 = p\<lparr>callStatus := CallCreating\<rparr>
            in (case getUserMedia env p1 of
                  None \<Rightarrow> (Rejected MediaError, p1, s)
                | Some (localStream, p2) \<Rightarrow>
                    let p3 = p2\<lparr>localStreamRef := Some localStream\<rparr>;
                        (pc, p4) = newRTCPeerConnection p3;
                        p5 = p4\<lparr>pcRef := Some pc\<rparr>;
                        p6 = updPeer pc (\<lambda>x. x\<lparr>senders := senders x @ localStream\<rparr>) p5;
                        newId = newCallId env;
                        newDoc = \<lparr>createdAt = Some (serverTime s), createdByUid = Some (uid u),
                                  offer = None, answer = None, status = Some StatusOpen\<rparr>;
                        s1 = s\<lparr>calls := (calls s)(newId \<mapsto> newDoc)\<rparr>;
                        p7 = p6\<lparr>pageCallId := newId\<rparr>;
                        p8 = updPeer pc (\<lambda>x. x\<lparr>onicecandidate := Some (OfferSide, newId)\<rparr>) p7;
                        offerDescription = \<lparr>sd_type = SdpOffer, sdp = offerSdp env\<rparr>
                    in (case setLocalDescription pc offerDescription p8 of
                          None \<Rightarrow> (Rejected InvalidState, p8, s1)
                        | Some p9 \<Rightarrow>
                            let s2 = s1\<lparr>calls := (calls s1)(newId \<mapsto>
                                       newDoc\<lparr>offer := Some offerDescription\<rparr>)\<rparr>;
                                p10 = p9\<lparr>callStatus := CallCreated\<rparr>
                            in (Returned,
                                p10\<lparr>subscriptions := subscriptions p10 @
                                      [CallerDocSub pc newId, AnswerCandidatesSub pc newId]\<rparr>,
                                s2)))))"

text \<open>
  \<^verbatim>\<open>joinCall\<close> (lines 359-416): guards (user, permission, call id), status, fetch of the
  call document with the two early returns, then as the callee above, with one
  subscription.
\<close>

definition joinCall :: "Media \<Rightarrow> CallPage \<times> Store \<Rightarrow> outcome \<times> CallPage \<times> Store" where
  "joinCall env w =
     (case w of (p, s) \<Rightarrow>
      if user p = None then (Returned, p, s)
      else if \<not> effectiveCanCall p then (Returned, p\<lparr>callStatus := CallNoPermission\<rparr>, s)
      else if pageCallId p = [] then (Returned, p, s)
      else
        let cid = pageCallId p;
            p1 = p\<lparr>callStatus := CallJoining\<rparr>
        in (case calls s cid of
              None \<Rightarrow> (Returned, p1\<lparr>callStatus := CallNotFound\<rparr>, s)
            | Some callData \<Rightarrow>
                (case offer callData of
                   None \<Rightarrow> (Returned, p1\<lparr>callStatus := CallNotReady\<rparr>, s)
                 | Some remoteOffer \<Rightarrow>
                     (case getUserMedia env p1 of
                        None \<Rightarrow> (Rejected MediaError, p1, s)
                      | Some (localStream, p2) \<Rightarrow>
                          let p3 = p2\<lparr>localStreamRef := Some localStream\<rparr>;
                              (pc, p4) = newRTCPeerConnection p3;
                              p5 = p4\<lparr>pcRef := Some pc\<rparr>;
                              p6 = updPeer pc (\<lambda>x. x\<lparr>senders := senders x @ localStream,
                                                      onicecandidate := Some (AnswerSide, cid)\<rparr>) p5
                          in (case setRemoteDescription pc remoteOffer p6 of
                                (Rejected e, p7) \<Rightarrow> (Rejected e, p7, s)
                              | (Returned, p7) \<Rightarrow>
                                  let answerDesc = \<lparr>sd_type = SdpAnswer, sdp = answerSdp env\<rparr>
                                  in (case setLocalDescription pc answerDesc p7 of
                                        None \<Rightarrow> (Rejected InvalidState, p7, s)
                                      | Some p8 \<Rightarrow>
                                          let s1 = s\<lparr>calls := (calls s)(cid \<mapsto>
                                                     callData\<lparr>answer := Some answerDesc,
                                                              status := Some StatusConnected\<rparr>)\<rparr>;
                                              p9 = p8\<lparr>callStatus := CallConnected\<rparr>
                                          in (Returned,
                                              p9\<lparr>subscriptions := subscriptions p9 @
                                                   [OfferCandidatesSub pc cid]\<rparr>,
                                              s1)))))))"

text \<open>\<^verbatim>\<open>hangUp\<close> (lines 418-427), without the change of the address bar.\<close>

definition hangUp :: "CallPage \<times> Store \<Rightarrow> CallPage \<times> Store" where
  "hangUp w =
     (case w of (p, s) \<Rightarrow>
      let s1 = (if roomId p \<noteq> [] \<and> pageCallId p \<noteq> []
                then (case calls s (pageCallId p) of
                        None \<Rightarrow> s
                      | Some c \<Rightarrow> s\<lparr>calls := (calls s)(pageCallId p \<mapsto> c\<lparr>status := Some StatusEnded\<rparr>)\<rparr>)
                else s)
      in (cleanupCall_v1 p, s1))"

text \<open>
  The handler of the caller's subscription to the call document (lines 334-343), in the
  same two parts: the part that runs at the delivery of a snapshot and the part that runs
  when the awaited call settles.
\<close>

definition callerDocEnded_v1 :: "CallDoc \<Rightarrow> CallPage \<Rightarrow> CallPage" where
  "callerDocEnded_v1 data p = (if status data = Some StatusEnded then cleanupCall_v1 p else p)"

definition callerDocSnapshot_v1 ::
  "nat \<Rightarrow> CallDoc option \<Rightarrow> CallPage \<times> Suspended list \<Rightarrow> CallPage \<times> Suspended list" where
  "callerDocSnapshot_v1 pc snap w =
     (case w of (p, waiting) \<Rightarrow>
      (case snap of
         None \<Rightarrow> (p, waiting)
       | Some data \<Rightarrow>
           (case answer data of
              None \<Rightarrow> (callerDocEnded_v1 data p, waiting)
            | Some a \<Rightarrow>
                if currentRemoteDescription (getPeer pc p) = None
                then (callSetRemoteDescription pc a p, waiting @ [(a, data)])
                else (callerDocEnded_v1 data p, waiting))))"

definition callerDocResume_v1 ::
  "nat \<Rightarrow> CallPage \<times> Suspended list \<Rightarrow> outcome \<times> CallPage \<times> Suspended list" where
  "callerDocResume_v1 pc w =
     (case w of (p, waiting) \<Rightarrow>
      (case waiting of
         [] \<Rightarrow> (Returned, p, [])
       | (a, data) # rest \<Rightarrow>
           (case settleSetRemoteDescription pc a p of
              (Rejected e, p1) \<Rightarrow> (Rejected e, p1, rest)
            | (Returned, p1) \<Rightarrow>
                (Returned, callerDocEnded_v1 data (p1\<lparr>callStatus := CallConnected\<rparr>), rest))))"

fun runCallerDoc_v1 ::
  "nat \<Rightarrow> CallerEvent list \<Rightarrow> CallPage \<times> Suspended list \<Rightarrow> CallPage \<times> Suspended list" where
  "runCallerDoc_v1 pc [] w = w"
| "runCallerDoc_v1 pc (Deliver snap # evs) w =
     runCallerDoc_v1 pc evs (callerDocSnapshot_v1 pc snap w)"
| "runCallerDoc_v1 pc (Settle # evs) w = runCallerDoc_v1 pc evs (snd (callerDocResume_v1 pc w))"

section \<open>Example states\<close>

text \<open>
  A room with default settings whose admin is \<open>u0\<close>, a signed-in member \<open>u1\<close>, the page of
  this member before any call, and a store with the room document only.
\<close>

definition exUser :: User where
  "exUser = \<lparr>uid = ''u1'', displayName = Some ''Ada''\<rparr>"

definition exRoom :: RoomData where
  "exRoom = \<lparr>room_name = ''Room'', adminUid = ''u0'', joinCode = ''AEJNSW'',
             defaultCanChat = Some True, defaultCanCall = Some True,
             lockChat = Some False, lockCalls = Some False\<rparr>"

definition exPage :: VoicePage where
  "exPage = \<lparr>roomId = ''r1'', user = Some exUser, room = Some exRoom, roomStatus = RoomOK,
             myRole = Some RoleMember, myOverrides = \<lparr>canChat = None, canCall = None\<rparr>,
             pcRef = None, localStreamRef = None, remoteAudioRef = Some None,
             peers = [], tracks = [], subscriptions = [],
             voiceCallId = None, voiceStatus = VoiceInactive, inVoice = False\<rparr>"

definition exCallPage :: CallPage where
  "exCallPage = \<lparr>roomId = ''r1'', user = Some exUser, room = Some exRoom, roomStatus = RoomOK,
             myRole = Some RoleMember, myOverrides = \<lparr>canChat = None, canCall = None\<rparr>,
             pcRef = None, localStreamRef = None, remoteAudioRef = Some None,
             peers = [], tracks = [], subscriptions = [],
             pageCallId = ''c1'', callStatus = CallNone\<rparr>"

definition exStore :: Store where
  "exStore = \<lparr>serverTime = 7, roomDoc = Some exRoom, members = Map.empty,
              voiceCurrent = None, voiceMembers = Map.empty, calls = Map.empty,
              offerCandidates = (\<lambda>c. []), answerCandidates = (\<lambda>c. [])\<rparr>"

definition exMedia :: Media where
  "exMedia = \<lparr>mic = Some 1, offerSdp = ''o'', answerSdp = ''a'', newCallId = ''c1''\<rparr>"

text \<open>The same store after the admin has switched the chat of \<open>u1\<close> off.\<close>

definition exMutedStore :: Store where
  "exMutedStore = exStore\<lparr>members := [''u1'' \<mapsto>
       \<lparr>m_uid = ''u1'', m_name = ''Ada'', m_role = RoleMember,
        m_canChat = Some False, m_canCall = None, m_joinedAt = Some 3\<rparr>]\<rparr>"

text \<open>The environment of an attempt in which the microphone is refused.\<close>

definition exNoMic :: Media where
  "exNoMic = exMedia\<lparr>mic := None\<rparr>"

text \<open>
  A call session \<open>c1\<close> that is open and has no offer, the store that holds it, and the
  session after the callee has answered.
\<close>

definition exOpenCall :: CallDoc where
  "exOpenCall = \<lparr>createdAt = Some 7, createdByUid = Some ''u1'', offer = None, answer = None,
                 status = Some StatusOpen\<rparr>"

definition exCallStore :: Store where
  "exCallStore = exStore\<lparr>calls := [''c1'' \<mapsto> exOpenCall]\<rparr>"

definition exAnswer :: SessionDesc where
  "exAnswer = \<lparr>sd_type = SdpAnswer, sdp = ''a''\<rparr>"

definition exAnswered :: CallDoc where
  "exAnswered = \<lparr>createdAt = Some 7, createdByUid = Some ''u1'',
                 offer = Some \<lparr>sd_type = SdpOffer, sdp = ''o''\<rparr>,
                 answer = Some exAnswer, status = Some StatusConnected\<rparr>"

text \<open>
  The page of the caller after \<open>startAsCaller\<close> for the session \<open>c1\<close>, the same page after
  the user has left the voice channel, and the older page after \<open>createCall\<close>.
\<close>

definition exCallerPage :: VoicePage where
  "exCallerPage = fst (snd (startAsCaller exMedia ''c1'' (exPage, exCallStore)))"

definition exLeftPage :: VoicePage where
  "exLeftPage = fst (exitVoice (exCallerPage, exCallStore))"

definition exCallerPage_v1 :: CallPage where
  "exCallerPage_v1 = fst (snd (createCall exMedia (exCallPage, exStore)))"

section \<open>Properties of the permission resolver\<close>

text \<open>
  C3. For an authenticated non-admin member of a room whose lock for the capability is
  not set, the resolver returns the member's override whenever the override is a boolean,
  also when it contradicts the room default, and the room default (\<^verbatim>\<open>?? true\<close>) whenever
  the override is unset. This holds for the call capability and for the chat capability.
\<close>

theorem effective_unlocked_override_else_default:
  assumes "user p = Some u" and "room p = Some r" and "myRole p \<noteq> Some RoleAdmin"
  shows "(\<not> truthy (lockCalls r) \<longrightarrow>
            (\<forall>b. canCall (myOverrides p) = Some b \<longrightarrow> effectiveCanCall p = b) \<and>
            (canCall (myOverrides p) = None \<longrightarrow> effectiveCanCall p = orTrue (defaultCanCall r)))
       \<and> (\<not> truthy (lockChat r) \<longrightarrow>
            (\<forall>b. canChat (myOverrides p) = Some b \<longrightarrow> effectiveCanChat p = b) \<and>
            (canChat (myOverrides p) = None \<longrightarrow> effectiveCanChat p = orTrue (defaultCanChat r)))"
  using assms by (simp add: effectiveCanCall_def effectiveCanChat_def isAdmin_def)

theorem effective_unlocked_override_else_default_witness:
  "effectiveCanCall (exPage\<lparr>myOverrides := \<lparr>canChat = None, canCall = Some False\<rparr>\<rparr>) = False
   \<and> orTrue (defaultCanCall exRoom) = True
   \<and> effectiveCanChat (exPage\<lparr>myOverrides := \<lparr>canChat = None, canCall = Some False\<rparr>\<rparr>) = True"
proof -
  let ?p = "exPage\<lparr>myOverrides := \<lparr>canChat = None, canCall = Some False\<rparr>\<rparr>"
  have u: "user ?p = Some exUser" and r: "room ?p = Some exRoom"
    and a: "myRole ?p \<noteq> Some RoleAdmin"
    by (simp_all add: exPage_def)
  have l: "\<not> truthy (lockCalls exRoom)" "\<not> truthy (lockChat exRoom)"
    by (simp_all add: exRoom_def truthy_def)
  have o: "canCall (myOverrides ?p) = Some False" "canChat (myOverrides ?p) = None"
    by simp_all
  have d: "orTrue (defaultCanCall exRoom) = True" "orTrue (defaultCanChat exRoom) = True"
    by (simp_all add: exRoom_def orTrue_def)
  from effective_unlocked_override_else_default [OF u r a] l o d show ?thesis
    by blast
qed

text \<open>
  C4. In a room with \<^verbatim>\<open>lockChat\<close> set to true, the resolved chat capability of an
  authenticated non-admin member is false, whatever the member's override and the room
  default are.
\<close>

theorem effectiveCanChat_locked_nonadmin:
  assumes "user p = Some u" and "room p = Some r" and "myRole p \<noteq> Some RoleAdmin"
    and "lockChat r = Some True"
  shows "effectiveCanChat p = False"
  using assms by (simp add: effectiveCanChat_def isAdmin_def truthy_def)

theorem effectiveCanChat_locked_nonadmin_witness:
  "effectiveCanChat
     (exPage\<lparr>room := Some (exRoom\<lparr>lockChat := Some True\<rparr>),
              myOverrides := \<lparr>canChat = Some True, canCall = None\<rparr>\<rparr>) = False"
  using effectiveCanChat_locked_nonadmin
    [of "exPage\<lparr>room := Some (exRoom\<lparr>lockChat := Some True\<rparr>),
                 myOverrides := \<lparr>canChat = Some True, canCall = None\<rparr>\<rparr>"
        exUser "exRoom\<lparr>lockChat := Some True\<rparr>"]
  by (simp add: exPage_def exRoom_def)

text \<open>
  C5. For an authenticated user whose role is admin and a loaded room, the resolver returns
  true for chat and for call, for all locks, defaults and overrides.
\<close>

theorem effective_admin_true:
  assumes "user p = Some u" and "room p = Some r" and "myRole p = Some RoleAdmin"
  shows "effectiveCanChat p \<and> effectiveCanCall p"
  using assms by (simp add: effectiveCanChat_def effectiveCanCall_def isAdmin_def)

theorem effective_admin_true_witness:
  "effectiveCanChat
     (exPage\<lparr>room := Some (exRoom\<lparr>lockChat := Some True, lockCalls := Some True,
                                   defaultCanChat := Some False, defaultCanCall := Some False\<rparr>),
              myRole := Some RoleAdmin,
              myOverrides := \<lparr>canChat = Some False, canCall = Some False\<rparr>\<rparr>)
   \<and> effectiveCanCall
     (exPage\<lparr>room := Some (exRoom\<lparr>lockChat := Some True, lockCalls := Some True,
                                   defaultCanChat := Some False, defaultCanCall := Some False\<rparr>),
              myRole := Some RoleAdmin,
              myOverrides := \<lparr>canChat = Some False, canCall = Some False\<rparr>\<rparr>)"
  using effective_admin_true
    [of "exPage\<lparr>room := Some (exRoom\<lparr>lockChat := Some True, lockCalls := Some True,
                                   defaultCanChat := Some False, defaultCanCall := Some False\<rparr>),
              myRole := Some RoleAdmin,
              myOverrides := \<lparr>canChat = Some False, canCall = Some False\<rparr>\<rparr>"
        exUser
        "exRoom\<lparr>lockChat := Some True, lockCalls := Some True,
                defaultCanChat := Some False, defaultCanCall := Some False\<rparr>"]
  by (simp add: exPage_def)

section \<open>Properties of the invite codes\<close>

text \<open>The loop of \<^verbatim>\<open>randomCode\<close> appends one pick for each index below \<open>len\<close>.\<close>

lemma randomCode_loop_eq: "randomCode_loop i len rnd out = out @ concat (map (\<lambda>k. pick (rnd k)) [i..<len])"
proof (induction i len rnd out rule: randomCode_loop.induct)
  case (1 i len rnd out)
  show ?case
  proof (cases "i < len")
    case True
    then show ?thesis using 1 by (subst randomCode_loop.simps) (simp add: upt_conv_Cons)
  next
    case False
    then show ?thesis by (subst randomCode_loop.simps) simp
  qed
qed

lemma randomCode_eq: "randomCode len rnd = concat (map (\<lambda>k. pick (rnd k)) [0..<len])"
  by (simp add: randomCode_def randomCode_loop_eq)

text \<open>A draw in \<open>[0, 1)\<close> picks one character of the alphabet.\<close>

lemma pick_in: assumes "0 \<le> r" "r < 1" shows "\<exists>c \<in> set chars. pick r = [c]"
proof -
  have l: "length chars = 32" by (simp add: chars_def)
  have "0 \<le> r * 32" using assms by simp
  then have a: "0 \<le> \<lfloor>r * 32\<rfloor>" by simp
  have "r * 32 < 32" using assms by simp
  then have b: "\<lfloor>r * 32\<rfloor> < 32" by (simp add: floor_less_iff)
  from a b have "nat \<lfloor>r * 32\<rfloor> < length chars" using l by linarith
  then have "chars ! nat \<lfloor>r * 32\<rfloor> \<in> set chars" by (rule nth_mem)
  with a b l show ?thesis by (simp add: pick_def Let_def)
qed

lemma concat_picks:
  assumes "\<forall>i. 0 \<le> rnd i \<and> rnd i < 1"
  shows "length (concat (map (\<lambda>k. pick (rnd k)) ks)) = length ks
       \<and> set (concat (map (\<lambda>k. pick (rnd k)) ks)) \<subseteq> set chars"
proof (induction ks)
  case Nil
  show ?case by simp
next
  case (Cons k ks)
  from assms have "0 \<le> rnd k" "rnd k < 1" by simp_all
  from pick_in [OF this] obtain c where "c \<in> set chars" "pick (rnd k) = [c]" by blast
  with Cons show ?case by simp
qed

lemma randomCode_shape:
  assumes "\<forall>i. 0 \<le> rnd i \<and> rnd i < 1"
  shows "length (randomCode len rnd) = len \<and> set (randomCode len rnd) \<subseteq> set chars"
  using concat_picks [OF assms, of "[0..<len]"] by (simp add: randomCode_eq)

text \<open>
  The alphabet has upper-case letters and digits only, so upper-casing fixes it, and
  neither its characters nor their lower-case letters are white space.
\<close>

lemma chars_codes: "\<forall>c \<in> set chars. (65 \<le> (of_char c :: nat) \<and> (of_char c :: nat) \<le> 90) \<or> (50 \<le> (of_char c :: nat) \<and> (of_char c :: nat) \<le> 57)"
  by (simp add: chars_def)

lemma ws_codes: "isWhiteSpace c \<Longrightarrow> (of_char c :: nat) \<le> 32"
  by (auto simp add: isWhiteSpace_def)

lemma toUpper_toLower: "65 \<le> (of_char c :: nat) \<Longrightarrow> (of_char c :: nat) \<le> 90 \<Longrightarrow> toUpperChar (toLowerChar c) = c"
  by (simp add: toUpperChar_def toLowerChar_def Let_def)


lemma toUpperChar_id: "\<not> (97 \<le> (of_char c :: nat) \<and> (of_char c :: nat) \<le> 122) \<Longrightarrow> toUpperChar c = c"
  unfolding toUpperChar_def Let_def by (simp only: if_False)

lemma toLowerChar_id: "\<not> (65 \<le> (of_char c :: nat) \<and> (of_char c :: nat) \<le> 90) \<Longrightarrow> toLowerChar c = c"
  unfolding toLowerChar_def Let_def by (simp only: if_False)

lemma toLowerChar_code:
  "65 \<le> (of_char c :: nat) \<Longrightarrow> (of_char c :: nat) \<le> 90 \<Longrightarrow> (of_char (toLowerChar c) :: nat) = of_char c + 32"
  by (simp add: toLowerChar_def Let_def)

lemma alphabet_char:
  assumes "c \<in> set chars"
  shows "toUpperChar c = c" and "toUpperChar (toLowerChar c) = c"
    and "\<not> isWhiteSpace c" and "\<not> isWhiteSpace (toLowerChar c)"
proof -
  from assms chars_codes have r: "(65 \<le> (of_char c :: nat) \<and> (of_char c :: nat) \<le> 90)
      \<or> (50 \<le> (of_char c :: nat) \<and> (of_char c :: nat) \<le> 57)" by blast
  then have "\<not> (97 \<le> (of_char c :: nat) \<and> (of_char c :: nat) \<le> 122)" by linarith
  then show u: "toUpperChar c = c" by (rule toUpperChar_id)
  from r have w: "\<not> (of_char c :: nat) \<le> 32" by linarith
  with ws_codes [of c] show "\<not> isWhiteSpace c" by blast
  show "toUpperChar (toLowerChar c) = c"
  proof (cases "65 \<le> (of_char c :: nat) \<and> (of_char c :: nat) \<le> 90")
    case True
    then show ?thesis by (simp add: toUpper_toLower)
  next
    case False
    then show ?thesis using u by (simp add: toLowerChar_id)
  qed
  show "\<not> isWhiteSpace (toLowerChar c)"
  proof (cases "65 \<le> (of_char c :: nat) \<and> (of_char c :: nat) \<le> 90")
    case True
    then have "(of_char (toLowerChar c) :: nat) = of_char c + 32" by (simp add: toLowerChar_code)
    with True have "\<not> (of_char (toLowerChar c) :: nat) \<le> 32" by linarith
    with ws_codes [of "toLowerChar c"] show ?thesis by blast
  next
    case False
    then have "toLowerChar c = c" by (rule toLowerChar_id)
    with w ws_codes [of c] show ?thesis by auto
  qed
qed

lemma variant_upper:
  assumes "caseVariant v code" and "set code \<subseteq> set chars"
  shows "toUpperCase v = code \<and> (\<forall>c \<in> set v. \<not> isWhiteSpace c)"
  using assms unfolding caseVariant_def toUpperCase_def
proof (induction v code rule: list_all2_induct)
  case Nil
  show ?case by simp
next
  case (Cons a v b code)
  then have "b \<in> set chars" by simp
  from alphabet_char [OF this] Cons show ?case by auto
qed

text \<open>Trimming removes white-space padding around a text without white space.\<close>

lemma dropWhile_all: "\<forall>c \<in> set xs. P c \<Longrightarrow> dropWhile P (xs @ ys) = dropWhile P ys"
  by (induction xs) auto

lemma dropWhile_none: "\<forall>c \<in> set xs. \<not> P c \<Longrightarrow> xs \<noteq> [] \<Longrightarrow> dropWhile P (xs @ ys) = xs @ ys"
  by (cases xs) auto

lemma trim_padded:
  assumes pre: "\<forall>c \<in> set pre. isWhiteSpace c" and post: "\<forall>c \<in> set post. isWhiteSpace c"
    and v: "\<forall>c \<in> set v. \<not> isWhiteSpace c"
  shows "trim (pre @ v @ post) = v"
proof (cases "v = []")
  case True
  from pre post have "\<forall>c \<in> set (pre @ post). isWhiteSpace c" by auto
  then have d: "dropWhile isWhiteSpace (pre @ [] @ post) = []" by simp
  show ?thesis unfolding True trim_def d by simp
next
  case False
  have a: "dropWhile isWhiteSpace (pre @ v @ post) = v @ post"
    using dropWhile_all [OF pre, of "v @ post"] dropWhile_none [OF v False, of post] by simp
  from post have rp: "\<forall>c \<in> set (rev post). isWhiteSpace c" by simp
  from v have rv: "\<forall>c \<in> set (rev v). \<not> isWhiteSpace c" by simp
  from False have ne: "rev v \<noteq> []" by simp
  have b: "dropWhile isWhiteSpace (rev (v @ post)) = rev v"
    using dropWhile_all [OF rp, of "rev v"] dropWhile_none [OF rv ne, of "[]"] by simp
  show ?thesis by (simp only: trim_def a b rev_rev_ident)
qed

lemma ws_upper: "isWhiteSpace c \<Longrightarrow> toUpperChar c = c"
  using ws_codes [of c] by (simp add: toUpperChar_def Let_def)

lemma upper_padded:
  assumes "\<forall>c \<in> set ws. isWhiteSpace c"
  shows "toUpperCase ws = ws"
  using assms by (induction ws) (simp_all add: toUpperCase_def ws_upper)

lemma chars_unambiguous:
  "CHR ''0'' \<notin> set chars \<and> CHR ''O'' \<notin> set chars \<and> CHR ''1'' \<notin> set chars
   \<and> CHR ''I'' \<notin> set chars \<and> length chars = 32 \<and> distinct chars"
  by (simp add: chars_def)

text \<open>
  C10. An invite code made at room creation has exactly 6 characters of the alphabet
  \<open>ABCDEFGHJKLMNPQRSTUVWXYZ23456789\<close>, which has no 0, O, 1, I and is fixed by
  upper-casing. The code-entry action and the join page both upper-case and trim their
  input, so a case variant of the code with white space around it is normalised to the
  stored \<open>joinCode\<close> by either of them and by one after the other, and the lookup of the
  join page then finds a room with this code.
\<close>

theorem invite_code_roundtrip:
  assumes rnd: "\<forall>i. 0 \<le> rnd i \<and> rnd i < 1"
    and cr: "createRoom (Some u) roomName rnd = Some r"
    and cv: "caseVariant v (joinCode r)"
    and ws: "\<forall>c \<in> set pre \<union> set post. isWhiteSpace c"
    and st: "(rid, r) \<in> set rooms"
  shows "length (joinCode r) = 6
       \<and> set (joinCode r) \<subseteq> set chars
       \<and> set chars \<inter> set ''0O1I'' = {}
       \<and> toUpperCase (joinCode r) = joinCode r
       \<and> enterRoom (pre @ v @ post) = GoJoin (joinCode r)
       \<and> joinPageCode (Some (pre @ v @ post)) = joinCode r
       \<and> joinPageCode (Some (joinCode r)) = joinCode r
       \<and> (\<exists>rid' r'. joinLookup rooms (Some (pre @ v @ post)) = GoRoom rid' (joinCode r)
                    \<and> (rid', r') \<in> set rooms \<and> joinCode r' = joinCode r)"
proof -
  from cr have jc: "joinCode r = randomCode 6 rnd"
    by (auto simp add: createRoom_def Let_def)
  let ?code = "joinCode r"
  from randomCode_shape [OF rnd, of 6] jc
  have len: "length ?code = 6" and sub: "set ?code \<subseteq> set chars"
    by simp_all
  from variant_upper [OF cv sub]
  have up: "toUpperCase v = ?code" and nws: "\<forall>c \<in> set v. \<not> isWhiteSpace c"
    by simp_all
  from ws have pre: "\<forall>c \<in> set pre. isWhiteSpace c" and post: "\<forall>c \<in> set post. isWhiteSpace c"
    by simp_all
  from len have ne: "?code \<noteq> []" by auto
  have amb: "set chars \<inter> set ''0O1I'' = {}"
    using chars_unambiguous by simp
  have upc: "toUpperCase ?code = ?code"
    using sub alphabet_char(1) by (simp add: toUpperCase_def map_idI subset_iff)
  have enter: "enterRoom (pre @ v @ post) = GoJoin ?code"
    using trim_padded [OF pre post nws] up ne by (simp add: enterRoom_def)
  have cnws: "\<forall>c \<in> set ?code. \<not> isWhiteSpace c"
    using sub alphabet_char(3) by blast
  have "toUpperCase (pre @ v @ post) = pre @ ?code @ post"
    using upper_padded [OF pre] upper_padded [OF post] up by (simp add: toUpperCase_def)
  with trim_padded [OF pre post cnws]
  have join: "joinPageCode (Some (pre @ v @ post)) = ?code"
    by (simp add: joinPageCode_def)
  have again: "joinPageCode (Some ?code) = ?code"
    using trim_padded [of "[]" "[]" ?code] cnws upc by (simp add: joinPageCode_def)
  have look: "\<exists>rid' r'. joinLookup rooms (Some (pre @ v @ post)) = GoRoom rid' ?code
                \<and> (rid', r') \<in> set rooms \<and> joinCode r' = ?code"
  proof (cases "filter (\<lambda>d. joinCode (snd d) = ?code) rooms")
    case Nil
    with st have False by (auto simp add: filter_empty_conv)
    then show ?thesis ..
  next
    case (Cons d ds)
    then have "d \<in> set (filter (\<lambda>d. joinCode (snd d) = ?code) rooms)" by simp
    then have "(fst d, snd d) \<in> set rooms" and "joinCode (snd d) = ?code" by simp_all
    moreover have "joinLookup rooms (Some (pre @ v @ post)) = GoRoom (fst d) ?code"
      using Cons join ne by (simp add: joinLookup_def)
    ultimately show ?thesis by blast
  qed
  from len sub amb upc enter join again look show ?thesis by blast
qed

theorem invite_code_roundtrip_witness:
  "createRoom (Some exUser) ''La mia Room'' (\<lambda>i. real (i mod 8) / 8)
     = Some (exRoom\<lparr>room_name := ''La mia Room'', adminUid := ''u1'', defaultCanChat := None,
                     defaultCanCall := None, lockChat := None, lockCalls := None\<rparr>)
   \<and> enterRoom ''  aeJnSw  '' = GoJoin ''AEJNSW''
   \<and> joinPageCode (Some ''  aeJnSw  '') = ''AEJNSW''
   \<and> joinLookup [(''r1'', exRoom\<lparr>room_name := ''La mia Room'', adminUid := ''u1'',
                                  defaultCanChat := None, defaultCanCall := None,
                                  lockChat := None, lockCalls := None\<rparr>)]
         (Some ''  aeJnSw  '') = GoRoom ''r1'' ''AEJNSW''"
proof -
  let ?rnd = "\<lambda>i::nat. real (i mod 8) / 8"
  let ?r = "exRoom\<lparr>room_name := ''La mia Room'', adminUid := ''u1'', defaultCanChat := None,
                   defaultCanCall := None, lockChat := None, lockCalls := None\<rparr>"
  have rnd: "\<forall>i. 0 \<le> ?rnd i \<and> ?rnd i < 1"
    by simp
  have cr: "createRoom (Some exUser) ''La mia Room'' ?rnd = Some ?r"
    by (simp add: createRoom_def randomCode_eq pick_def chars_def upt_conv_Cons trim_def
        isWhiteSpace_def exUser_def exRoom_def)
  have jc: "joinCode ?r = ''AEJNSW''"
    by (simp add: exRoom_def)
  have cv: "caseVariant ''aeJnSw'' (joinCode ?r)"
    unfolding jc by code_simp
  have ws: "\<forall>c \<in> set ''  '' \<union> set ''  ''. isWhiteSpace c"
    by (simp add: isWhiteSpace_def)
  have st: "(''r1'', ?r) \<in> set [(''r1'', ?r)]"
    by simp
  from invite_code_roundtrip [OF rnd cr cv ws st] cr jc show ?thesis
    by simp
qed

section \<open>Properties of the room entry\<close>

text \<open>
  C1, as the claim states it, fails on the current room page: a member who is not the
  admin enters a room with default settings, and the upsert writes the boolean true into
  \<open>canChat\<close> and \<open>canCall\<close>; an override false that was stored before is replaced as well.
\<close>

theorem member_upsert_writes_booleans:
  "map_option m_canChat (members (snd (loadRoom (Some exUser) (exPage, exStore))) ''u1'')
     = Some (Some True)
   \<and> map_option m_canCall (members (snd (loadRoom (Some exUser) (exPage, exStore))) ''u1'')
     = Some (Some True)
   \<and> map_option m_canChat (members exMutedStore ''u1'') = Some (Some False)
   \<and> map_option m_canChat (members (snd (loadRoom (Some exUser) (exPage, exMutedStore))) ''u1'')
     = Some (Some True)"
  by (simp add: loadRoom_def loadRoomWith_def exPage_def exStore_def exMutedStore_def exUser_def
      exRoom_def backfill_def memberPayload_def mergeMember_def orTrue_def truthy_def
      orUtente_def Let_def)

text \<open>
  C1, amended. When room entry creates the member record (the store has none for the
  user), the current room page writes \<open>canChat\<close> and \<open>canCall\<close> as booleans: true for the
  admin, else the room's default (true when the room has none). The older room page
  creates the record with both fields unset. A member whose override is unset, who is not
  admin and whose capability is not locked, resolves to the room default (true when the
  room has none).
\<close>

theorem member_created_with_defaults:
  assumes "roomId p \<noteq> []" and "roomId q \<noteq> []" and "roomDoc s = Some data0"
    and "members s (uid u) = None"
  shows "(\<exists>m. members (snd (loadRoom (Some u) (p, s))) (uid u) = Some m
            \<and> m_canChat m = Some (if adminUid data0 = uid u then True
                                   else orTrue (defaultCanChat data0))
            \<and> m_canCall m = Some (if adminUid data0 = uid u then True
                                   else orTrue (defaultCanCall data0)))
       \<and> (\<exists>m. members (snd (loadRoom_v1 (Some u) (q, s))) (uid u) = Some m
            \<and> m_canChat m = None \<and> m_canCall m = None)
       \<and> (\<forall>pg :: VoicePage. \<forall>r. user pg \<noteq> None \<and> room pg = Some r \<and> myRole pg \<noteq> Some RoleAdmin \<longrightarrow>
            (canChat (myOverrides pg) = None \<and> \<not> truthy (lockChat r) \<longrightarrow>
               effectiveCanChat pg = orTrue (defaultCanChat r))
            \<and> (canCall (myOverrides pg) = None \<and> \<not> truthy (lockCalls r) \<longrightarrow>
               effectiveCanCall pg = orTrue (defaultCanCall r)))"
proof -
  have new: "\<exists>m. members (snd (loadRoom (Some u) (p, s))) (uid u) = Some m
            \<and> m_canChat m = Some (if adminUid data0 = uid u then True
                                   else orTrue (defaultCanChat data0))
            \<and> m_canCall m = Some (if adminUid data0 = uid u then True
                                   else orTrue (defaultCanCall data0))"
    using assms
    by (simp add: loadRoom_def loadRoomWith_def backfill_def memberPayload_def mergeMember_def
        orTrue_def Let_def)
  have old: "\<exists>m. members (snd (loadRoom_v1 (Some u) (q, s))) (uid u) = Some m
            \<and> m_canChat m = None \<and> m_canCall m = None"
    using assms
    by (simp add: loadRoom_v1_def loadRoomWith_def backfill_def memberPayload_v1_def
        mergeMember_def Let_def)
  have res: "effectiveCanChat pg = orTrue (defaultCanChat r)"
    if "user pg \<noteq> None" "room pg = Some r" "myRole pg \<noteq> Some RoleAdmin"
      "canChat (myOverrides pg) = None" "\<not> truthy (lockChat r)" for pg :: VoicePage and r
    using that by (auto simp add: effectiveCanChat_def isAdmin_def)
  have res2: "effectiveCanCall pg = orTrue (defaultCanCall r)"
    if "user pg \<noteq> None" "room pg = Some r" "myRole pg \<noteq> Some RoleAdmin"
      "canCall (myOverrides pg) = None" "\<not> truthy (lockCalls r)" for pg :: VoicePage and r
    using that by (auto simp add: effectiveCanCall_def isAdmin_def)
  from new old res res2 show ?thesis by blast
qed

theorem member_created_with_defaults_witness:
  "(\<exists>m. members (snd (loadRoom (Some exUser) (exPage, exStore))) ''u1'' = Some m
        \<and> m_canChat m = Some True \<and> m_canCall m = Some True)
   \<and> (\<exists>m. members (snd (loadRoom_v1 (Some exUser) (exCallPage, exStore))) ''u1'' = Some m
        \<and> m_canChat m = None \<and> m_canCall m = None)
   \<and> effectiveCanChat exPage = True \<and> effectiveCanCall exPage = True"
proof -
  have a: "roomId exPage \<noteq> []" "roomId exCallPage \<noteq> []" "roomDoc exStore = Some exRoom"
    "members exStore (uid exUser) = None"
    by (simp_all add: exPage_def exCallPage_def exStore_def)
  have b: "uid exUser = ''u1''" "adminUid exRoom \<noteq> uid exUser"
    "orTrue (defaultCanChat exRoom) = True" "orTrue (defaultCanCall exRoom) = True"
    by (simp_all add: exUser_def exRoom_def orTrue_def)
  have c: "user exPage \<noteq> None" "room exPage = Some exRoom" "myRole exPage \<noteq> Some RoleAdmin"
    "canChat (myOverrides exPage) = None" "canCall (myOverrides exPage) = None"
    "\<not> truthy (lockChat exRoom)" "\<not> truthy (lockCalls exRoom)"
    by (simp_all add: exPage_def exRoom_def truthy_def)
  from member_created_with_defaults [OF a]
  have n: "\<exists>m. members (snd (loadRoom (Some exUser) (exPage, exStore))) (uid exUser) = Some m
            \<and> m_canChat m = Some (if adminUid exRoom = uid exUser then True
                                   else orTrue (defaultCanChat exRoom))
            \<and> m_canCall m = Some (if adminUid exRoom = uid exUser then True
                                   else orTrue (defaultCanCall exRoom))"
    and o: "\<exists>m. members (snd (loadRoom_v1 (Some exUser) (exCallPage, exStore))) (uid exUser) = Some m
            \<and> m_canChat m = None \<and> m_canCall m = None"
    and r: "effectiveCanChat exPage = orTrue (defaultCanChat exRoom)"
      "effectiveCanCall exPage = orTrue (defaultCanCall exRoom)"
    using c by blast+
  from n o r b show ?thesis by simp
qed

section \<open>Properties of the teardown\<close>

lemma length_foldl_stopTrack: "length (foldl stopTrack ts st) = length ts"
  by (induction st arbitrary: ts) (simp_all add: stopTrack_def)

lemma foldl_stopTrack_nth:
  "distinct st \<Longrightarrow> t < length ts \<Longrightarrow>
     foldl stopTrack ts st ! t = (if t \<in> set st then Suc (ts ! t) else ts ! t)"
proof (induction st arbitrary: ts)
  case Nil
  then show ?case by simp
next
  case (Cons x st)
  have l: "t < length (stopTrack ts x)" using Cons.prems by (simp add: stopTrack_def)
  from Cons.prems have d: "distinct st" and nx: "x \<notin> set st" by simp_all
  have "foldl stopTrack ts (x # st) ! t = foldl stopTrack (stopTrack ts x) st ! t" by simp
  also have "\<dots> = (if t \<in> set st then Suc (stopTrack ts x ! t) else stopTrack ts x ! t)"
    by (rule Cons.IH [OF d l])
  also have "\<dots> = (if t \<in> set (x # st) then Suc (ts ! t) else ts ! t)"
    using nx Cons.prems by (auto simp add: stopTrack_def nth_list_update)
  finally show ?case .
qed

text \<open>
  C7. Calling the local call cleanup twice gives the same local state as calling it once:
  the second call changes nothing. After the cleanup the peer reference and the stream
  reference are cleared; the peer that was referenced is closed and, after two cleanups,
  has had one call of \<open>close()\<close>; each track of the stream has had one call of \<open>stop()\<close>.
  The cleanup has no failing outcome. The same holds for the cleanup of the older page.
\<close>

theorem cleanupCall_idempotent:
  "cleanupCall (cleanupCall p) = cleanupCall p
   \<and> pcRef (cleanupCall p) = None \<and> localStreamRef (cleanupCall p) = None
   \<and> \<not> inVoice (cleanupCall p)
   \<and> (\<forall>h. pcRef p = Some h \<and> h < length (peers p) \<longrightarrow>
          signalingState (peers (cleanupCall p) ! h) = Closed
          \<and> closeCalls (peers (cleanupCall (cleanupCall p)) ! h) = Suc (closeCalls (peers p ! h)))
   \<and> (\<forall>st t. localStreamRef p = Some st \<and> distinct st \<and> t \<in> set st \<and> t < length (tracks p) \<longrightarrow>
          tracks (cleanupCall (cleanupCall p)) ! t = Suc (tracks p ! t))
   \<and> cleanupCall_v1 (cleanupCall_v1 q) = cleanupCall_v1 q
   \<and> pcRef (cleanupCall_v1 q) = None \<and> localStreamRef (cleanupCall_v1 q) = None
   \<and> (\<forall>h. pcRef q = Some h \<and> h < length (peers q) \<longrightarrow>
          closeCalls (peers (cleanupCall_v1 (cleanupCall_v1 q)) ! h) = Suc (closeCalls (peers q ! h)))"
proof -
  have i: "cleanupCall (cleanupCall p) = cleanupCall p"
    by (simp add: cleanupCall_def Let_def split: option.splits)
  have i1: "cleanupCall_v1 (cleanupCall_v1 q) = cleanupCall_v1 q"
    by (simp add: cleanupCall_v1_def Let_def split: option.splits)
  have r: "pcRef (cleanupCall p) = None \<and> localStreamRef (cleanupCall p) = None
           \<and> \<not> inVoice (cleanupCall p)"
    by (simp add: cleanupCall_def Let_def split: option.splits)
  have r1: "pcRef (cleanupCall_v1 q) = None \<and> localStreamRef (cleanupCall_v1 q) = None"
    by (simp add: cleanupCall_v1_def Let_def split: option.splits)
  have c: "\<forall>h. pcRef p = Some h \<and> h < length (peers p) \<longrightarrow>
          signalingState (peers (cleanupCall p) ! h) = Closed
          \<and> closeCalls (peers (cleanupCall p) ! h) = Suc (closeCalls (peers p ! h))"
    by (simp add: cleanupCall_def closePeer_def Let_def split: option.splits)
  have c1: "\<forall>h. pcRef q = Some h \<and> h < length (peers q) \<longrightarrow>
          closeCalls (peers (cleanupCall_v1 q) ! h) = Suc (closeCalls (peers q ! h))"
    by (simp add: cleanupCall_v1_def closePeer_def Let_def split: option.splits)
  have t: "\<forall>st t. localStreamRef p = Some st \<and> distinct st \<and> t \<in> set st \<and> t < length (tracks p) \<longrightarrow>
          tracks (cleanupCall p) ! t = Suc (tracks p ! t)"
    by (simp add: cleanupCall_def foldl_stopTrack_nth Let_def split: option.splits)
  from i i1 r r1 c c1 t show ?thesis by simp
qed

theorem cleanupCall_idempotent_witness:
  "cleanupCall (cleanupCall (exPage\<lparr>pcRef := Some 0, localStreamRef := Some [0],
       peers := [newPeer], tracks := [0], inVoice := True\<rparr>))
     = exPage\<lparr>peers := [newPeer\<lparr>signalingState := Closed, closeCalls := 1\<rparr>], tracks := [1]\<rparr>
   \<and> cleanupCall_v1 (cleanupCall_v1 (exCallPage\<lparr>pcRef := Some 0, localStreamRef := Some [0],
       peers := [newPeer], tracks := [0]\<rparr>))
     = exCallPage\<lparr>peers := [newPeer\<lparr>signalingState := Closed, closeCalls := 1\<rparr>], tracks := [1],
                  callStatus := CallClosed\<rparr>"
proof -
  let ?p = "exPage\<lparr>pcRef := Some 0, localStreamRef := Some [0],
       peers := [newPeer], tracks := [0], inVoice := True\<rparr>"
  let ?q = "exCallPage\<lparr>pcRef := Some 0, localStreamRef := Some [0],
       peers := [newPeer], tracks := [0]\<rparr>"
  have a: "cleanupCall ?p
     = exPage\<lparr>peers := [newPeer\<lparr>signalingState := Closed, closeCalls := 1\<rparr>], tracks := [1]\<rparr>"
    by (simp add: cleanupCall_def closePeer_def stopTrack_def exPage_def newPeer_def Let_def)
  have b: "cleanupCall_v1 ?q
     = exCallPage\<lparr>peers := [newPeer\<lparr>signalingState := Closed, closeCalls := 1\<rparr>], tracks := [1],
                  callStatus := CallClosed\<rparr>"
    by (simp add: cleanupCall_v1_def closePeer_def stopTrack_def exCallPage_def newPeer_def Let_def)
  from cleanupCall_idempotent [of ?p ?q] a b show ?thesis
    by simp
qed

section \<open>Properties of close-for-all\<close>

text \<open>
  C8. When an admin invokes close-for-all on a room whose voice state references a call
  session, the status of this session becomes ended, its other fields and all other
  sessions stay, and the call pointer of the voice state becomes null. When a user who is
  not admin invokes it, nothing changes: neither the page nor the store.
\<close>

theorem closeVoiceForAll_ends_session:
  "(isAdmin p \<and> roomId p \<noteq> [] \<and> voiceCurrent s = Some v \<and> callId v = Some cid \<and> cid \<noteq> []
      \<and> calls s cid = Some c \<longrightarrow>
      calls (snd (closeVoiceForAll (p, s))) = (calls s)(cid \<mapsto> c\<lparr>status := Some StatusEnded\<rparr>)
      \<and> map_option callId (voiceCurrent (snd (closeVoiceForAll (p, s)))) = Some None
      \<and> voiceCallId (fst (closeVoiceForAll (p, s))) = None
      \<and> voiceStatus (fst (closeVoiceForAll (p, s))) = VoiceClosedForAll)
   \<and> (\<not> isAdmin p \<longrightarrow> closeVoiceForAll (p, s) = (p, s))"
  by (simp add: closeVoiceForAll_def truthyStr_def Let_def)

theorem closeVoiceForAll_ends_session_witness:
  "calls (snd (closeVoiceForAll
       (exPage\<lparr>myRole := Some RoleAdmin\<rparr>,
        exStore\<lparr>voiceCurrent := Some \<lparr>callId = Some ''c1'', updatedAt = Some 5,
                                      updatedByUid = Some ''u2''\<rparr>,
                calls := [''c1'' \<mapsto> \<lparr>createdAt = Some 5, createdByUid = Some ''u2'',
                                    offer = Some \<lparr>sd_type = SdpOffer, sdp = ''o''\<rparr>,
                                    answer = Some \<lparr>sd_type = SdpAnswer, sdp = ''a''\<rparr>,
                                    status = Some StatusConnected\<rparr>]\<rparr>))) ''c1''
     = Some \<lparr>createdAt = Some 5, createdByUid = Some ''u2'',
             offer = Some \<lparr>sd_type = SdpOffer, sdp = ''o''\<rparr>,
             answer = Some \<lparr>sd_type = SdpAnswer, sdp = ''a''\<rparr>,
             status = Some StatusEnded\<rparr>
   \<and> closeVoiceForAll (exPage, exStore) = (exPage, exStore)"
proof -
  let ?c = "\<lparr>createdAt = Some 5, createdByUid = Some ''u2'',
            offer = Some \<lparr>sd_type = SdpOffer, sdp = ''o''\<rparr>,
            answer = Some \<lparr>sd_type = SdpAnswer, sdp = ''a''\<rparr>,
            status = Some StatusConnected\<rparr>"
  let ?v = "\<lparr>callId = Some ''c1'', updatedAt = Some 5, updatedByUid = Some ''u2''\<rparr>"
  let ?p = "exPage\<lparr>myRole := Some RoleAdmin\<rparr>"
  let ?s = "exStore\<lparr>voiceCurrent := Some ?v, calls := [''c1'' \<mapsto> ?c]\<rparr>"
  have a: "isAdmin ?p \<and> roomId ?p \<noteq> [] \<and> voiceCurrent ?s = Some ?v \<and> callId ?v = Some ''c1''
           \<and> ''c1'' \<noteq> [] \<and> calls ?s ''c1'' = Some ?c"
    by (simp add: isAdmin_def exPage_def)
  have b: "\<not> isAdmin exPage"
    by (simp add: isAdmin_def exPage_def)
  from closeVoiceForAll_ends_session [of ?p ?s ?v "''c1''" ?c] a
  have "calls (snd (closeVoiceForAll (?p, ?s))) ''c1'' = Some (?c\<lparr>status := Some StatusEnded\<rparr>)"
    by simp
  moreover from closeVoiceForAll_ends_session [of exPage exStore] b
  have "closeVoiceForAll (exPage, exStore) = (exPage, exStore)"
    by simp
  ultimately show ?thesis by simp
qed

section \<open>Properties of the callee path\<close>

text \<open>
  C9. On the callee path of a signed-in user, if the call session is absent the operation
  reports "session not found" and stops, and if the session has no offer it reports "not
  ready" and stops. In both cases the only change is the status message: the store is as
  before (no answer, status or candidate written), and so are the stream reference, the
  peers and the tracks of the page, whatever the microphone would have answered. The
  older page behaves in the same way once its guards (user, permission, call id) have
  passed.
\<close>

theorem joinAsCallee_stops_early:
  assumes "user p \<noteq> None"
    and "user q \<noteq> None" and "effectiveCanCall q" and "pageCallId q \<noteq> []"
  shows "(calls s cid = None \<longrightarrow>
            joinAsCallee env cid (p, s) = (Returned, p\<lparr>voiceStatus := VoiceSessionNotFound\<rparr>, s))
       \<and> (\<forall>d. calls s cid = Some d \<and> offer d = None \<longrightarrow>
            joinAsCallee env cid (p, s) = (Returned, p\<lparr>voiceStatus := VoiceSessionNotReady\<rparr>, s))
       \<and> (calls s (pageCallId q) = None \<longrightarrow>
            joinCall env (q, s) = (Returned, q\<lparr>callStatus := CallNotFound\<rparr>, s))
       \<and> (\<forall>d. calls s (pageCallId q) = Some d \<and> offer d = None \<longrightarrow>
            joinCall env (q, s) = (Returned, q\<lparr>callStatus := CallNotReady\<rparr>, s))"
proof -
  from assms obtain u w where u: "user p = Some u" and w: "user q = Some w"
    by auto
  have 1: "joinAsCallee env cid (p, s) = (Returned, p\<lparr>voiceStatus := VoiceSessionNotFound\<rparr>, s)"
    if "calls s cid = None"
    using u that by (simp add: joinAsCallee_def)
  have 2: "joinAsCallee env cid (p, s) = (Returned, p\<lparr>voiceStatus := VoiceSessionNotReady\<rparr>, s)"
    if "calls s cid = Some d" and "offer d = None" for d
    using u that by (simp add: joinAsCallee_def)
  have 3: "joinCall env (q, s) = (Returned, q\<lparr>callStatus := CallNotFound\<rparr>, s)"
    if "calls s (pageCallId q) = None"
    using w assms(3,4) that by (simp add: joinCall_def)
  have 4: "joinCall env (q, s) = (Returned, q\<lparr>callStatus := CallNotReady\<rparr>, s)"
    if "calls s (pageCallId q) = Some d" and "offer d = None" for d
    using w assms(3,4) that by (simp add: joinCall_def)
  from 1 2 3 4 show ?thesis by blast
qed

theorem joinAsCallee_stops_early_witness:
  "joinAsCallee exMedia ''c1'' (exPage, exStore)
     = (Returned, exPage\<lparr>voiceStatus := VoiceSessionNotFound\<rparr>, exStore)
   \<and> joinAsCallee exMedia ''c1''
       (exPage, exStore\<lparr>calls := [''c1'' \<mapsto> \<lparr>createdAt = Some 5, createdByUid = Some ''u2'',
                                    offer = None, answer = None, status = Some StatusOpen\<rparr>]\<rparr>)
     = (Returned, exPage\<lparr>voiceStatus := VoiceSessionNotReady\<rparr>,
        exStore\<lparr>calls := [''c1'' \<mapsto> \<lparr>createdAt = Some 5, createdByUid = Some ''u2'',
                                    offer = None, answer = None, status = Some StatusOpen\<rparr>]\<rparr>)
   \<and> joinCall exMedia (exCallPage, exStore)
     = (Returned, exCallPage\<lparr>callStatus := CallNotFound\<rparr>, exStore)"
proof -
  let ?d = "\<lparr>createdAt = Some 5, createdByUid = Some ''u2'',
            offer = None, answer = None, status = Some StatusOpen\<rparr>"
  let ?s = "exStore\<lparr>calls := [''c1'' \<mapsto> ?d]\<rparr>"
  have a: "user exPage \<noteq> None" "user exCallPage \<noteq> None" "effectiveCanCall exCallPage"
    "pageCallId exCallPage \<noteq> []"
    by (simp_all add: exPage_def exCallPage_def effectiveCanCall_def isAdmin_def exRoom_def
        truthy_def orTrue_def)
  have b: "calls exStore ''c1'' = None" "pageCallId exCallPage = ''c1''"
    "calls ?s ''c1'' = Some ?d" "offer ?d = None"
    by (simp_all add: exStore_def exCallPage_def)
  from joinAsCallee_stops_early [OF a, of exStore "''c1''" exMedia] b
  have 1: "joinAsCallee exMedia ''c1'' (exPage, exStore)
            = (Returned, exPage\<lparr>voiceStatus := VoiceSessionNotFound\<rparr>, exStore)"
    and 3: "joinCall exMedia (exCallPage, exStore)
            = (Returned, exCallPage\<lparr>callStatus := CallNotFound\<rparr>, exStore)"
    by simp_all
  from joinAsCallee_stops_early [OF a, of ?s "''c1''" exMedia] b
  have 2: "joinAsCallee exMedia ''c1'' (exPage, ?s)
            = (Returned, exPage\<lparr>voiceStatus := VoiceSessionNotReady\<rparr>, ?s)"
    by blast
  from 1 2 3 show ?thesis by simp
qed

section \<open>Properties of the caller's answer handler\<close>

text \<open>The cleanup closes a peer and keeps its descriptions and the record of its calls.\<close>

lemma closePeer_keeps:
  "length (closePeer h ps) = length ps
   \<and> currentRemoteDescription (closePeer h ps ! pc) = currentRemoteDescription (ps ! pc)
   \<and> setRemoteCalls (closePeer h ps ! pc) = setRemoteCalls (ps ! pc)"
  by (simp add: closePeer_def nth_list_update)

lemma cleanupCall_keeps:
  "length (peers (cleanupCall p)) = length (peers p)
   \<and> currentRemoteDescription (peers (cleanupCall p) ! pc) = currentRemoteDescription (peers p ! pc)
   \<and> setRemoteCalls (peers (cleanupCall p) ! pc) = setRemoteCalls (peers p ! pc)"
  by (simp add: cleanupCall_def closePeer_keeps Let_def split: option.splits)

lemma callerDocEnded_keeps:
  "length (peers (callerDocEnded data p)) = length (peers p)
   \<and> currentRemoteDescription (peers (callerDocEnded data p) ! pc)
       = currentRemoteDescription (peers p ! pc)
   \<and> setRemoteCalls (peers (callerDocEnded data p) ! pc) = setRemoteCalls (peers p ! pc)"
  by (simp add: callerDocEnded_def cleanupCall_keeps)

text \<open>
  Settling a call does not add to the record of calls, and a peer that has a current
  remote description keeps having one.
\<close>

lemma settle_keeps:
  assumes "pc < length (peers p)"
  shows "length (peers (snd (settleSetRemoteDescription pc d p))) = length (peers p)
       \<and> setRemoteCalls (peers (snd (settleSetRemoteDescription pc d p)) ! pc)
           = setRemoteCalls (peers p ! pc)
       \<and> (currentRemoteDescription (peers p ! pc) \<noteq> None \<longrightarrow>
            currentRemoteDescription (peers (snd (settleSetRemoteDescription pc d p)) ! pc) \<noteq> None)"
  using assms
  by (simp add: settleSetRemoteDescription_def updPeer_def getPeer_def
      split: SignalingState.splits SdpType.splits)

lemma callerDocSnapshot_settled:
  assumes "pc < length (peers p)" and "currentRemoteDescription (peers p ! pc) \<noteq> None"
  shows "pc < length (peers (fst (callerDocSnapshot pc snap (p, waiting))))
       \<and> currentRemoteDescription (peers (fst (callerDocSnapshot pc snap (p, waiting))) ! pc) \<noteq> None
       \<and> setRemoteCalls (peers (fst (callerDocSnapshot pc snap (p, waiting))) ! pc)
           = setRemoteCalls (peers p ! pc)"
proof -
  from assms(2) obtain x where x: "currentRemoteDescription (peers p ! pc) = Some x"
    by auto
  show ?thesis
    using assms(1) x
    by (simp add: callerDocSnapshot_def getPeer_def callerDocEnded_keeps split: option.splits)
qed

lemma callerDocResume_settled:
  assumes "pc < length (peers p)" and "currentRemoteDescription (peers p ! pc) \<noteq> None"
  shows "pc < length (peers (fst (snd (callerDocResume pc (p, waiting)))))
       \<and> currentRemoteDescription (peers (fst (snd (callerDocResume pc (p, waiting)))) ! pc) \<noteq> None
       \<and> setRemoteCalls (peers (fst (snd (callerDocResume pc (p, waiting)))) ! pc)
           = setRemoteCalls (peers p ! pc)"
proof (cases waiting)
  case Nil
  with assms show ?thesis by (simp add: callerDocResume_def)
next
  case (Cons x rest)
  obtain a data where x: "x = (a, data)" by (cases x)
  obtain o1 p1 where r: "settleSetRemoteDescription pc a p = (o1, p1)"
    by (cases "settleSetRemoteDescription pc a p")
  from settle_keeps [OF assms(1), of a] r assms
  have k: "pc < length (peers p1)" "currentRemoteDescription (peers p1 ! pc) \<noteq> None"
    "setRemoteCalls (peers p1 ! pc) = setRemoteCalls (peers p ! pc)"
    by simp_all
  show ?thesis
  proof (cases o1)
    case Returned
    with Cons x r k show ?thesis
      by (simp add: callerDocResume_def callerDocEnded_keeps)
  next
    case (Rejected e)
    with Cons x r k show ?thesis
      by (simp add: callerDocResume_def)
  qed
qed

text \<open>
  What the guard achieves: once the peer has a current remote description, no delivery
  and no settling leads to another call of \<open>setRemoteDescription\<close>.
\<close>

lemma runCallerDoc_settled:
  assumes "pc < length (peers p)" and "currentRemoteDescription (peers p ! pc) \<noteq> None"
  shows "setRemoteCalls (peers (fst (runCallerDoc pc evs (p, waiting))) ! pc)
           = setRemoteCalls (peers p ! pc)"
  using assms
proof (induction evs arbitrary: p waiting)
  case Nil
  then show ?case by simp
next
  case (Cons ev evs)
  show ?case
  proof (cases ev)
    case (Deliver snap)
    obtain p1 w1 where s: "callerDocSnapshot pc snap (p, waiting) = (p1, w1)"
      by (cases "callerDocSnapshot pc snap (p, waiting)")
    from callerDocSnapshot_settled [OF Cons.prems, of snap waiting] s
    have k: "pc < length (peers p1)" "currentRemoteDescription (peers p1 ! pc) \<noteq> None"
      "setRemoteCalls (peers p1 ! pc) = setRemoteCalls (peers p ! pc)"
      by simp_all
    from Cons.IH [OF k(1,2), of w1] k(3) Deliver s show ?thesis by simp
  next
    case Settle
    obtain o1 p1 w1 where s: "callerDocResume pc (p, waiting) = (o1, p1, w1)"
      by (cases "callerDocResume pc (p, waiting)")
    from callerDocResume_settled [OF Cons.prems, of waiting] s
    have k: "pc < length (peers p1)" "currentRemoteDescription (peers p1 ! pc) \<noteq> None"
      "setRemoteCalls (peers p1 ! pc) = setRemoteCalls (peers p ! pc)"
      by simp_all
    from Cons.IH [OF k(1,2), of w1] k(3) Settle s show ?thesis by simp
  qed
qed

text \<open>
  When the call of the first delivery settles before anything else is delivered, the
  answer is applied and \<open>setRemoteDescription\<close> is called once, whatever follows.
\<close>

lemma runCallerDoc_in_turn:
  assumes "pc < length (peers p)" and "signalingState (peers p ! pc) = HaveLocalOffer"
    and "currentRemoteDescription (peers p ! pc) = None"
    and "answer data = Some a" and "sd_type a = SdpAnswer"
  shows "setRemoteCalls (peers (fst (runCallerDoc pc (Deliver (Some data) # Settle # evs) (p, []))) ! pc)
           = setRemoteCalls (peers p ! pc) @ [a]"
proof -
  let ?p1 = "callSetRemoteDescription pc a p"
  have d: "callerDocSnapshot pc (Some data) (p, []) = (?p1, [(a, data)])"
    using assms by (simp add: callerDocSnapshot_def getPeer_def)
  have p1: "pc < length (peers ?p1)" "signalingState (peers ?p1 ! pc) = HaveLocalOffer"
    "setRemoteCalls (peers ?p1 ! pc) = setRemoteCalls (peers p ! pc) @ [a]"
    using assms by (simp_all add: callSetRemoteDescription_def updPeer_def)
  let ?p2 = "updPeer pc (\<lambda>x. x\<lparr>signalingState := Stable, currentRemoteDescription := Some a\<rparr>) ?p1"
  have s: "settleSetRemoteDescription pc a ?p1 = (Returned, ?p2)"
    using p1 assms(5) by (simp add: settleSetRemoteDescription_def getPeer_def)
  let ?p3 = "callerDocEnded data (?p2\<lparr>voiceStatus := VoiceConnected\<rparr>)"
  have r: "callerDocResume pc (?p1, [(a, data)]) = (Returned, ?p3, [])"
    using s by (simp add: callerDocResume_def)
  have p2: "pc < length (peers (?p2\<lparr>voiceStatus := VoiceConnected\<rparr>))"
    "currentRemoteDescription (peers (?p2\<lparr>voiceStatus := VoiceConnected\<rparr>) ! pc) = Some a"
    "setRemoteCalls (peers (?p2\<lparr>voiceStatus := VoiceConnected\<rparr>) ! pc)
       = setRemoteCalls (peers p ! pc) @ [a]"
    using p1 by (simp_all add: updPeer_def)
  from callerDocEnded_keeps [of data "?p2\<lparr>voiceStatus := VoiceConnected\<rparr>" pc] p2
  have p3: "pc < length (peers ?p3)" "currentRemoteDescription (peers ?p3 ! pc) \<noteq> None"
    "setRemoteCalls (peers ?p3 ! pc) = setRemoteCalls (peers p ! pc) @ [a]"
    by simp_all
  from runCallerDoc_settled [OF p3(1,2), of evs "[]"] p3(3) d r show ?thesis
    by simp
qed

text \<open>The example pages: the caller's peer has its local offer and no remote description.\<close>

lemma exCallerPage_peers:
  "peers exCallerPage = [newPeer\<lparr>signalingState := HaveLocalOffer, senders := [0],
                                localDescription := Some \<lparr>sd_type = SdpOffer, sdp = ''o''\<rparr>,
                                onicecandidate := Some (OfferSide, ''c1'')\<rparr>]
   \<and> pcRef exCallerPage = Some 0"
  by (simp add: exCallerPage_def startAsCaller_def getUserMedia_def newRTCPeerConnection_def
      updPeer_def getPeer_def setLocalDescription_def exPage_def exMedia_def exStore_def
      exCallStore_def exOpenCall_def newPeer_def Let_def)

lemma exCallerPage_v1_peers:
  "peers exCallerPage_v1 = [newPeer\<lparr>signalingState := HaveLocalOffer, senders := [0],
                                   localDescription := Some \<lparr>sd_type = SdpOffer, sdp = ''o''\<rparr>,
                                   onicecandidate := Some (OfferSide, ''c1'')\<rparr>]"
  by (simp add: exCallerPage_v1_def createCall_def getUserMedia_def newRTCPeerConnection_def
      updPeer_def getPeer_def setLocalDescription_def exCallPage_def exMedia_def exStore_def
      newPeer_def effectiveCanCall_def isAdmin_def exRoom_def truthy_def orTrue_def Let_def)

lemma exLeftPage_peers:
  "peers exLeftPage = [newPeer\<lparr>signalingState := Closed, closeCalls := 1, senders := [0],
                              localDescription := Some \<lparr>sd_type = SdpOffer, sdp = ''o''\<rparr>,
                              onicecandidate := Some (OfferSide, ''c1'')\<rparr>]"
  using exCallerPage_peers
  by (simp add: exLeftPage_def exitVoice_def cleanupCall_def closePeer_def Let_def
      exCallerPage_def startAsCaller_def getUserMedia_def newRTCPeerConnection_def
      updPeer_def getPeer_def setLocalDescription_def exPage_def exMedia_def exStore_def
      exCallStore_def exOpenCall_def newPeer_def exUser_def)

text \<open>
  C6 at concrete inputs. The caller's peer has its local offer; the snapshot with the
  answer is delivered twice before the call of the first delivery has settled. Both
  deliveries find no current remote description, so \<open>setRemoteDescription\<close> is called
  twice with the answer; the first call applies it, the second one is rejected in the
  state \<open>stable\<close> and its handler ends with a rejected promise. The handler of the older
  page calls twice in the same way. After the user has left the voice channel the peer is
  closed and never gets a remote description, and the subscription, which is still live,
  calls \<open>setRemoteDescription\<close> at every delivery of the answer.
\<close>

theorem caller_answer_called_twice:
  "setRemoteCalls (peers (fst (runCallerDoc 0
       [Deliver (Some exAnswered), Deliver (Some exAnswered)] (exCallerPage, []))) ! 0)
     = [exAnswer, exAnswer]
   \<and> currentRemoteDescription (peers (fst (runCallerDoc 0
       [Deliver (Some exAnswered), Deliver (Some exAnswered), Settle, Settle]
       (exCallerPage, []))) ! 0)
     = Some exAnswer
   \<and> fst (callerDocResume 0 (runCallerDoc 0
       [Deliver (Some exAnswered), Deliver (Some exAnswered), Settle] (exCallerPage, [])))
     = Rejected InvalidState
   \<and> setRemoteCalls (peers (fst (runCallerDoc_v1 0
       [Deliver (Some exAnswered), Deliver (Some exAnswered)] (exCallerPage_v1, []))) ! 0)
     = [exAnswer, exAnswer]
   \<and> setRemoteCalls (peers (fst (runCallerDoc 0
       [Deliver (Some exAnswered), Settle, Deliver (Some exAnswered), Settle]
       (exLeftPage, []))) ! 0)
     = [exAnswer, exAnswer]
   \<and> currentRemoteDescription (peers (fst (runCallerDoc 0
       [Deliver (Some exAnswered), Settle, Deliver (Some exAnswered), Settle]
       (exLeftPage, []))) ! 0)
     = None"
proof -
  have a: "answer exAnswered = Some exAnswer" "status exAnswered = Some StatusConnected"
    "sd_type exAnswer = SdpAnswer"
    by (simp_all add: exAnswered_def exAnswer_def)
  note defs = callerDocSnapshot_def callerDocResume_def callerDocEnded_def
    callerDocSnapshot_v1_def callerDocResume_v1_def callerDocEnded_v1_def
    callSetRemoteDescription_def settleSetRemoteDescription_def updPeer_def getPeer_def
    newPeer_def
  have 1: "setRemoteCalls (peers (fst (runCallerDoc 0
       [Deliver (Some exAnswered), Deliver (Some exAnswered)] (exCallerPage, []))) ! 0)
     = [exAnswer, exAnswer]"
    using exCallerPage_peers a by (simp add: defs)
  have 2: "currentRemoteDescription (peers (fst (runCallerDoc 0
       [Deliver (Some exAnswered), Deliver (Some exAnswered), Settle, Settle]
       (exCallerPage, []))) ! 0)
     = Some exAnswer"
    using exCallerPage_peers a by (simp add: defs)
  have 3: "fst (callerDocResume 0 (runCallerDoc 0
       [Deliver (Some exAnswered), Deliver (Some exAnswered), Settle] (exCallerPage, [])))
     = Rejected InvalidState"
    using exCallerPage_peers a by (simp add: defs)
  have 4: "setRemoteCalls (peers (fst (runCallerDoc_v1 0
       [Deliver (Some exAnswered), Deliver (Some exAnswered)] (exCallerPage_v1, []))) ! 0)
     = [exAnswer, exAnswer]"
    using exCallerPage_v1_peers a by (simp add: defs)
  have 5: "setRemoteCalls (peers (fst (runCallerDoc 0
       [Deliver (Some exAnswered), Settle, Deliver (Some exAnswered), Settle]
       (exLeftPage, []))) ! 0)
     = [exAnswer, exAnswer]"
    using exLeftPage_peers a by (simp add: defs)
  have 6: "currentRemoteDescription (peers (fst (runCallerDoc 0
       [Deliver (Some exAnswered), Settle, Deliver (Some exAnswered), Settle]
       (exLeftPage, []))) ! 0)
     = None"
    using exLeftPage_peers a by (simp add: defs)
  from 1 2 3 4 5 6 show ?thesis by simp
qed

section \<open>Entering the voice channel when the microphone fails\<close>

text \<open>
  When no session is active, \<open>enterVoice\<close> creates the call document and publishes its id
  in the voice state before \<open>startAsCaller\<close> asks for the microphone. If the microphone is
  refused, the promise of \<open>enterVoice\<close> is rejected there: the voice state references the
  new session, which is open and has no offer, the presence record is written, and the
  status message is the one set before the request.
\<close>

lemma enterVoice_mic_rejected:
  assumes "user p = Some u" and "roomId p \<noteq> []" and "effectiveCanCall p"
    and "\<not> truthyStr (case voiceCurrent s of None \<Rightarrow> None | Some d \<Rightarrow> callId d)"
    and "mic env = None"
  shows "fst (enterVoice env (p, s)) = Rejected MediaError
       \<and> fst (snd (enterVoice env (p, s)))
           = p\<lparr>voiceCallId := Some (newCallId env), voiceStatus := VoiceEnteringCaller\<rparr>
       \<and> map_option callId (voiceCurrent (snd (snd (enterVoice env (p, s)))))
           = Some (Some (newCallId env))
       \<and> calls (snd (snd (enterVoice env (p, s)))) (newCallId env)
           = Some \<lparr>createdAt = Some (serverTime s), createdByUid = Some (uid u),
                   offer = None, answer = None, status = Some StatusOpen\<rparr>
       \<and> voiceMembers (snd (snd (enterVoice env (p, s)))) (uid u) \<noteq> None"
  using assms
  by (cases "voiceCurrent s")
     (simp_all add: enterVoice_def ensureVoiceStateDoc_def createCallDoc_def startAsCaller_def
        getUserMedia_def Let_def)

text \<open>
  The older page asks for the microphone before it writes anything: a refusal leaves the
  store as it was.
\<close>

lemma createCall_mic_rejected:
  assumes "user q = Some u" and "effectiveCanCall q" and "mic env = None"
  shows "createCall env (q, s) = (Rejected MediaError, q\<lparr>callStatus := CallCreating\<rparr>, s)"
  using assms by (simp add: createCall_def getUserMedia_def)

text \<open>
  C2 at a concrete input: a member with call permission enters the voice channel of a room
  without a voice state, and the microphone is refused. The attempt ends with a rejected
  promise; the shared store then holds the new session \<open>c1\<close> (open, without offer),
  referenced by the call pointer of the voice state, and the presence record of the user;
  the status message is "Entro in vocale... (creo sessione)", not an error.
\<close>

theorem enterVoice_mic_failure_leaves_session:
  "enterVoice exNoMic (exPage, exStore)
     = (Rejected MediaError,
        exPage\<lparr>voiceCallId := Some ''c1'', voiceStatus := VoiceEnteringCaller\<rparr>,
        exStore\<lparr>voiceCurrent := Some \<lparr>callId = Some ''c1'', updatedAt = Some 7,
                                      updatedByUid = Some ''u1''\<rparr>,
                voiceMembers := [''u1'' \<mapsto> \<lparr>vm_uid = ''u1'', vm_name = ''Ada'',
                                           vm_joinedAt = Some 7\<rparr>],
                calls := [''c1'' \<mapsto> \<lparr>createdAt = Some 7, createdByUid = Some ''u1'',
                                    offer = None, answer = None,
                                    status = Some StatusOpen\<rparr>]\<rparr>)"
  by (simp add: enterVoice_def ensureVoiceStateDoc_def createCallDoc_def startAsCaller_def
      getUserMedia_def effectiveCanCall_def isAdmin_def truthy_def orTrue_def truthyStr_def
      orUtente_def exPage_def exStore_def exMedia_def exNoMic_def exUser_def exRoom_def Let_def)

end
